theory Spec2Isabelle
  imports Main "HOL-Library.Word"
begin

section \<open>Values of the video compressor module\<close>

text \<open>
  The module \<^verbatim>\<open>video-compressor.js\<close> wraps an FFmpeg WebAssembly engine. Byte
  buffers (\<^verbatim>\<open>Uint8Array\<close>) are lists of naturals, callbacks are identified by a
  number, and an optional property is an \<open>option\<close> value (\<open>None\<close> for \<^verbatim>\<open>undefined\<close>).
\<close>

type_synonym bytes = "nat list"
type_synonym callback = nat

text \<open>
  A JavaScript number, as far as the module looks at it: whether it is truthy and how
  \<^verbatim>\<open>String\<close> renders it. \<open>Integer w\<close> is the integer \<open>sint w\<close>, between \<open>- 2 ^ 53\<close> and
  \<open>2 ^ 53 - 1\<close>: each of these is a double and is rendered by its decimal digits
  (zero of either sign is \<open>Integer 0\<close>). \<open>NaN\<close> is the number that is not one. \<open>Other s\<close>
  is any other number (a fraction, a larger magnitude, an infinity), given by its
  rendering \<open>s\<close>, such as \<^verbatim>\<open>23.5\<close> or \<^verbatim>\<open>1e+21\<close>; every such number is truthy.
\<close>

datatype number = Integer "54 word" | NaN | Other string

text \<open>JavaScript truthiness of an optional string, number and boolean.\<close>

definition truthy_str :: "string option \<Rightarrow> bool" where
  "truthy_str s = (case s of None \<Rightarrow> False | Some x \<Rightarrow> x \<noteq> [])"

definition truthy_num :: "number option \<Rightarrow> bool" where
  "truthy_num n =
     (case n of
        None \<Rightarrow> False
      | Some (Integer w) \<Rightarrow> w \<noteq> 0
      | Some NaN \<Rightarrow> False
      | Some (Other s) \<Rightarrow> True)"

definition truthy_bool :: "bool option \<Rightarrow> bool" where
  "truthy_bool b = (case b of None \<Rightarrow> False | Some x \<Rightarrow> x)"

text \<open>
  \<^verbatim>\<open>String(n)\<close> and the interpolation of a number in a template string. For an integer:
  the decimal digits, least significant first onto an accumulator, with a sign for a
  negative one.
\<close>

definition digit :: "nat \<Rightarrow> char" where
  "digit d = ''0123456789'' ! d"

function decimal :: "nat \<Rightarrow> string \<Rightarrow> string" where
  "decimal n acc =
     (let acc' = digit (n mod 10) # acc
      in if n div 10 = 0 then acc' else decimal (n div 10) acc')"
  by pat_completeness auto
termination
  by (relation "measure fst") auto

declare decimal.simps [simp del]

definition String_nat :: "nat \<Rightarrow> string" where
  "String_nat n = decimal n []"

definition String_int :: "int \<Rightarrow> string" where
  "String_int i = (if i < 0 then CHR ''-'' # String_nat (nat (- i)) else String_nat (nat i))"

fun String_num :: "number \<Rightarrow> string" where
  "String_num (Integer w) = String_int (sint w)"
| "String_num NaN = ''NaN''"
| "String_num (Other s) = s"

text \<open>\<^verbatim>\<open>s.split(c)\<close> for a one-character separator.\<close>

fun split_on :: "char \<Rightarrow> string \<Rightarrow> string list" where
  "split_on c [] = [[]]"
| "split_on c (x # xs) =
     (if x = c then [] # split_on c xs
      else (case split_on c xs of [] \<Rightarrow> [[x]] | y # ys \<Rightarrow> (x # y) # ys))"

subsection \<open>Errors\<close>

text \<open>
  The five errors the module throws itself, the \<^verbatim>\<open>TypeError\<close> of a call on a
  \<^verbatim>\<open>null\<close> engine handle, and the errors of the collaborators (the engine and the
  file fetcher), which the module never inspects.
\<close>

datatype error =
    InputNotFile
  | ModeRequired
  | JobRunning
  | CrfAndBitrate
  | UnsupportedMode string
  | NullEngine
  | External string

fun message :: "error \<Rightarrow> string" where
  "message InputNotFile = ''Input must be a browser File object.''"
| "message ModeRequired = ''Compression mode is required.''"
| "message JobRunning = ''Another compression job is already running on this instance.''"
| "message CrfAndBitrate = ''Provide either crf or bitrate for video, not both.''"
| "message (UnsupportedMode m) = ''Unsupported compression mode: '' @ m"
| "message NullEngine = ''Cannot read properties of null''"
| "message (External m) = m"

subsection \<open>Options\<close>

definition COPY :: string where "COPY = ''copy''"
definition COPY_MUTE :: string where "COPY_MUTE = ''copy-mute''"
definition REENCODE :: string where "REENCODE = ''reencode''"

record ScaleOptions =
  width :: "number option"
  height :: "number option"

record VideoOptions =
  vcodec :: "string option"
  crf :: "number option"
  vbitrate :: "string option"
  preset :: "string option"
  scale :: "ScaleOptions option"

record AudioOptions =
  mute :: "bool option"
  acodec :: "string option"
  abitrate :: "string option"

text \<open>
  \<^verbatim>\<open>options.output\<close> is spread over the defaults, and a spread copies a key whose value
  is \<^verbatim>\<open>undefined\<close>: such a key is not the same as an absent one.
\<close>

datatype 'a property = Absent | Undefined | Given 'a

record OutputOptions =
  container :: "string property"
  fileName :: "string property"
  mimeType :: "string property"

record CompressionOptions =
  mode :: "string option"
  video :: "VideoOptions option"
  audio :: "AudioOptions option"
  job_output :: "OutputOptions option"
  job_onProgress :: "callback option"
  job_onLog :: "callback option"

text \<open>The \<^verbatim>\<open>output\<close> object of \<^verbatim>\<open>compress\<close>: the defaults overridden by \<^verbatim>\<open>options.output\<close>.\<close>

record ResolvedOutput =
  out_container :: "string option"
  out_mimeType :: "string option"
  out_fileName :: "string option"

definition spread :: "'a option \<Rightarrow> 'a property \<Rightarrow> 'a option" where
  "spread dflt p = (case p of Absent \<Rightarrow> dflt | Undefined \<Rightarrow> None | Given x \<Rightarrow> Some x)"

definition resolve_output :: "OutputOptions option \<Rightarrow> ResolvedOutput" where
  "resolve_output oo =
     (case oo of
        None \<Rightarrow>
          \<lparr>out_container = Some ''mp4'', out_mimeType = Some ''video/mp4'', out_fileName = None\<rparr>
      | Some x \<Rightarrow>
          \<lparr>out_container = spread (Some ''mp4'') (container x),
           out_mimeType = spread (Some ''video/mp4'') (mimeType x),
           out_fileName = spread None (fileName x)\<rparr>)"

section \<open>Building the argument list\<close>

text \<open>
  \<^verbatim>\<open>#applyVideoOptions(args, videoOptions = {})\<close>: pushes onto \<open>args\<close>; the model
  returns the extended list, or the error thrown.
\<close>

definition no_video :: VideoOptions where
  "no_video = \<lparr>vcodec = None, crf = None, vbitrate = None, preset = None, scale = None\<rparr>"

definition scale_filter :: "ScaleOptions \<Rightarrow> string" where
  "scale_filter s =
     (let w = (case width s of None \<Rightarrow> String_num (Integer (- 2)) | Some x \<Rightarrow> String_num x);
          h = (case height s of None \<Rightarrow> String_num (Integer (- 2)) | Some x \<Rightarrow> String_num x)
      in ''scale='' @ w @ '':'' @ h)"

definition applyVideoOptions :: "string list \<Rightarrow> VideoOptions option \<Rightarrow> error + string list" where
  "applyVideoOptions args videoOptions =
     (let v = (case videoOptions of None \<Rightarrow> no_video | Some x \<Rightarrow> x);
          codec = (case vcodec v of None \<Rightarrow> ''libx264'' | Some c \<Rightarrow> c);
          args1 = args @ [''-c:v'', codec]
      in if crf v \<noteq> None \<and> vbitrate v \<noteq> None then Inl CrfAndBitrate
         else
           let args2 = (case crf v of None \<Rightarrow> args1 | Some q \<Rightarrow> args1 @ [''-crf'', String_num q]);
               args3 = (case vbitrate v of None \<Rightarrow> args2 | Some b \<Rightarrow> args2 @ [''-b:v'', b]);
               args4 = (case preset v of
                          None \<Rightarrow> args3
                        | Some p \<Rightarrow> if p \<noteq> [] then args3 @ [''-preset'', p] else args3);
               args5 = (case scale v of
                          None \<Rightarrow> args4
                        | Some s \<Rightarrow>
                            if truthy_num (width s) \<or> truthy_num (height s)
                            then args4 @ [''-vf'', scale_filter s]
                            else args4)
           in Inr args5)"

text \<open>\<^verbatim>\<open>#applyAudioOptions(args, audioOptions = {})\<close>; it never throws.\<close>

definition no_audio :: AudioOptions where
  "no_audio = \<lparr>mute = None, acodec = None, abitrate = None\<rparr>"

definition applyAudioOptions :: "string list \<Rightarrow> AudioOptions option \<Rightarrow> string list" where
  "applyAudioOptions args audioOptions =
     (let a = (case audioOptions of None \<Rightarrow> no_audio | Some x \<Rightarrow> x)
      in if truthy_bool (mute a) then args @ [''-an'']
         else
           let args1 =
                 (if truthy_str (acodec a) then args @ [''-c:a'', the (acodec a)]
                  else if truthy_str (abitrate a) then args @ [''-c:a'', ''aac'']
                  else args @ [''-c:a'', ''copy''])
           in if truthy_str (abitrate a) then args1 @ [''-b:a'', the (abitrate a)] else args1)"

text \<open>
  \<^verbatim>\<open>#buildArgs(inputName, outputName, options, output)\<close>. The fourth parameter is
  not read by the source. An absent mode cannot reach the switch from \<^verbatim>\<open>compress\<close>;
  it falls to the default branch.
\<close>

definition buildArgs ::
  "string \<Rightarrow> string \<Rightarrow> CompressionOptions \<Rightarrow> ResolvedOutput \<Rightarrow> error + string list" where
  "buildArgs inputName outputName options out =
     (let args = [''-i'', inputName]
      in case
           (if mode options = Some COPY then
              Inr (args @ [''-c:v'', ''copy'', ''-c:a'', ''copy'', ''-movflags'', ''+faststart''])
            else if mode options = Some COPY_MUTE then
              Inr (args @ [''-c:v'', ''copy'', ''-an'', ''-movflags'', ''+faststart''])
            else if mode options = Some REENCODE then
              (case applyVideoOptions args (video options) of
                 Inl e \<Rightarrow> Inl e
               | Inr args1 \<Rightarrow>
                   Inr (applyAudioOptions args1 (audio options) @ [''-movflags'', ''+faststart'']))
            else Inl (UnsupportedMode (case mode options of None \<Rightarrow> ''undefined'' | Some m \<Rightarrow> m)))
         of Inl e \<Rightarrow> Inl e
          | Inr args' \<Rightarrow> Inr (args' @ [''-y'', outputName]))"

text \<open>\<^verbatim>\<open>#guessExtension(name, mime)\<close>.\<close>

definition guessExtension :: "string \<Rightarrow> string \<Rightarrow> string" where
  "guessExtension name mime =
     (if CHR ''.'' \<in> set name then last (split_on CHR ''.'' name)
      else
        let mimeParts = (if mime \<noteq> [] then split_on CHR ''/'' mime else [])
        in if 1 < length mimeParts \<and> mimeParts ! 1 \<noteq> [] then mimeParts ! 1 else ''mp4'')"

section \<open>Collaborators: the engine, the file fetcher, the clock\<close>

record File =
  file_name :: string
  file_type :: string

record Blob =
  blob_data :: bytes
  blob_type :: string

text \<open>
  \<^verbatim>\<open>new Blob([data], { type })\<close>: an \<^verbatim>\<open>undefined\<close> type is the empty string, a type
  with a character outside the printable ASCII range becomes the empty string, and any
  other type is put in lower case.
\<close>

definition ascii_lower :: "char \<Rightarrow> char" where
  "ascii_lower ch =
     (let n = (of_char ch :: nat) in if 65 \<le> n \<and> n \<le> 90 then char_of (n + 32) else ch)"

definition printable :: "char \<Rightarrow> bool" where
  "printable ch = (let n = (of_char ch :: nat) in 32 \<le> n \<and> n \<le> 126)"

definition new_Blob :: "bytes \<Rightarrow> string option \<Rightarrow> Blob" where
  "new_Blob data type =
     \<lparr>blob_data = data,
      blob_type =
        (case type of
           None \<Rightarrow> []
         | Some t \<Rightarrow> if list_all printable t then map ascii_lower t else [])\<rparr>"

record FFmpegOptions =
  opt_log :: bool
  opt_corePath :: "string option"

datatype fs_op = Stat | Unlink

text \<open>
  The engine is injected (\<^verbatim>\<open>config.ffmpegFactory\<close>), so it is a parameter: a state
  type \<open>'e\<close> and the methods the module calls on it. An asynchronous method acts on
  the engine state when it is invoked and yields the outcome its promise settles
  with (\<open>Inl\<close> a rejection); the awaiting call sees that outcome when it is resumed.
  \<^verbatim>\<open>FS(op, path)\<close> is synchronous: it returns a value (read for truthiness) or throws.
  The factory and \<^verbatim>\<open>on\<close> are taken to return. (A factory that throws leaves
  \<^verbatim>\<open>this.ffmpeg\<close> \<^verbatim>\<open>null\<close> and is invoked again by the next \<^verbatim>\<open>init()\<close>.)
\<close>

record 'e FFmpeg =
  ffmpeg_on :: "string \<Rightarrow> 'e \<Rightarrow> 'e"
  ffmpeg_load :: "'e \<Rightarrow> (error + unit) \<times> 'e"
  ffmpeg_writeFile :: "string \<Rightarrow> bytes \<Rightarrow> 'e \<Rightarrow> (error + unit) \<times> 'e"
  ffmpeg_exec :: "string list \<Rightarrow> 'e \<Rightarrow> (error + unit) \<times> 'e"
  ffmpeg_readFile :: "string \<Rightarrow> 'e \<Rightarrow> (error + bytes) \<times> 'e"
  ffmpeg_FS :: "fs_op \<Rightarrow> string \<Rightarrow> 'e \<Rightarrow> (error + bool) \<times> 'e"

record 'e VideoCompressorConfig =
  corePath :: "string option"
  cfg_log :: bool
  ffmpegFactory :: "FFmpegOptions \<Rightarrow> 'e"
  fileFetcher :: "File \<Rightarrow> error + bytes"
  cfg_onLog :: "callback option"
  cfg_onProgress :: "callback option"

text \<open>Every invocation of a collaborator is logged, in order.\<close>

datatype call =
    CFactory FFmpegOptions
  | COn string
  | CLoad
  | CFetch File
  | CWriteFile string bytes
  | CExec "string list"
  | CReadFile string
  | CFS fs_op string

section \<open>The compressor instance\<close>

record Hooks =
  onLog :: "callback option"
  onProgress :: "callback option"

definition no_hooks :: Hooks where
  "no_hooks = \<lparr>onLog = None, onProgress = None\<rparr>"

text \<open>
  The fields of \<^verbatim>\<open>VideoCompressor\<close>. \<open>ffmpeg\<close> holds the engine object (its state)
  or \<^verbatim>\<open>null\<close>; \<open>loadingPromise\<close> holds the promise of \<^verbatim>\<open>load()\<close>, identified with the
  outcome it settles with. \<open>calls\<close> is the log of collaborator invocations.
\<close>

record 'e VideoCompressor =
  ffmpeg :: "'e option"
  loadingPromise :: "(error + unit) option"
  activeJobHooks :: Hooks
  isRunningJob :: bool
  calls :: "call list"

definition new_VideoCompressor :: "'e VideoCompressor" where
  "new_VideoCompressor =
     \<lparr>ffmpeg = None, loadingPromise = None, activeJobHooks = no_hooks,
      isRunningJob = False, calls = []\<rparr>"

subsection \<open>init\<close>

text \<open>
  \<^verbatim>\<open>init()\<close> either returns at once (its promise is already resolved) or suspends at
  \<^verbatim>\<open>await this.loadingPromise\<close>, to settle with the outcome of the load.
\<close>

datatype init_state = Returned | Awaiting "error + unit"

definition ffmpegOptions :: "'e VideoCompressorConfig \<Rightarrow> FFmpegOptions" where
  "ffmpegOptions cfg =
     \<lparr>opt_log = cfg_log cfg,
      opt_corePath = (if truthy_str (corePath cfg) then corePath cfg else None)\<rparr>"

definition init ::
  "'e VideoCompressorConfig \<Rightarrow> 'e FFmpeg \<Rightarrow> 'e VideoCompressor \<Rightarrow> init_state \<times> 'e VideoCompressor" where
  "init cfg E c =
     (case ffmpeg c of
        Some _ \<Rightarrow> (Returned, c)
      | None \<Rightarrow>
          (case loadingPromise c of
             Some p \<Rightarrow> (Awaiting p, c)
           | None \<Rightarrow>
               let e0 = ffmpegFactory cfg (ffmpegOptions cfg);
                   e1 = ffmpeg_on E ''log'' e0;
                   e2 = ffmpeg_on E ''progress'' e1;
                   (p, e3) = ffmpeg_load E e2
               in (Awaiting p,
                   c\<lparr>ffmpeg := Some e3, loadingPromise := Some p,
                     calls := calls c @
                       [CFactory (ffmpegOptions cfg), COn ''log'', COn ''progress'', CLoad]\<rparr>)))"

subsection \<open>compress\<close>

record Job =
  job_inputName :: string
  job_outputName :: string
  job_args :: "string list"
  job_mimeType :: "string option"

text \<open>
  A call in flight is suspended at one of its \<^verbatim>\<open>await\<close>s, holding its locals and
  the outcome of the promise it awaits, or it has settled.
\<close>

datatype task =
    InitPending "error + unit"
  | InitSettled "error + unit"
  | AwaitInit File CompressionOptions "error + unit"
  | AwaitFetch Job "error + bytes"
  | AwaitWrite Job "error + unit"
  | AwaitExec Job "error + unit"
  | AwaitRead Job "error + bytes"
  | Settled "error + Blob"

text \<open>\<^verbatim>\<open>#cleanupFiles(paths)\<close>: each path in its own \<^verbatim>\<open>try\<close>/\<^verbatim>\<open>catch\<close>.\<close>

definition cleanup_path :: "'e FFmpeg \<Rightarrow> string \<Rightarrow> 'e VideoCompressor \<Rightarrow> 'e VideoCompressor" where
  "cleanup_path E path c =
     (case ffmpeg c of
        None \<Rightarrow> c
      | Some e \<Rightarrow>
          (case ffmpeg_FS E Stat path e of
             (Inl _, e1) \<Rightarrow> c\<lparr>ffmpeg := Some e1, calls := calls c @ [CFS Stat path]\<rparr>
           | (Inr found, e1) \<Rightarrow>
               if found
               then c\<lparr>ffmpeg := Some (snd (ffmpeg_FS E Unlink path e1)),
                      calls := calls c @ [CFS Stat path, CFS Unlink path]\<rparr>
               else c\<lparr>ffmpeg := Some e1, calls := calls c @ [CFS Stat path]\<rparr>))"

definition cleanupFiles :: "'e FFmpeg \<Rightarrow> string list \<Rightarrow> 'e VideoCompressor \<Rightarrow> 'e VideoCompressor" where
  "cleanupFiles E paths c = fold (cleanup_path E) paths c"

text \<open>The \<^verbatim>\<open>finally\<close> block of \<^verbatim>\<open>compress\<close>.\<close>

definition finally_block :: "'e FFmpeg \<Rightarrow> Job \<Rightarrow> 'e VideoCompressor \<Rightarrow> 'e VideoCompressor" where
  "finally_block E job c =
     cleanupFiles E [job_inputName job, job_outputName job]
       (c\<lparr>isRunningJob := False, activeJobHooks := no_hooks\<rparr>)"

text \<open>
  The first synchronous segment of \<^verbatim>\<open>compress(file, options)\<close>: the three checks and
  the call of \<^verbatim>\<open>init()\<close>, up to \<^verbatim>\<open>await this.init()\<close>. \<open>None\<close> for the file is a value
  that is not a \<^verbatim>\<open>File\<close>; \<open>None\<close> for the options is \<^verbatim>\<open>undefined\<close>.
\<close>

definition compress_start ::
  "'e VideoCompressorConfig \<Rightarrow> 'e FFmpeg \<Rightarrow> File option \<Rightarrow> CompressionOptions option \<Rightarrow>
   'e VideoCompressor \<Rightarrow> task \<times> 'e VideoCompressor" where
  "compress_start cfg E file options c =
     (case file of
        None \<Rightarrow> (Settled (Inl InputNotFile), c)
      | Some f \<Rightarrow>
          (case options of
             None \<Rightarrow> (Settled (Inl ModeRequired), c)
           | Some opts \<Rightarrow>
               if \<not> truthy_str (mode opts) then (Settled (Inl ModeRequired), c)
               else if isRunningJob c then (Settled (Inl JobRunning), c)
               else
                 (case init cfg E c of
                    (Returned, c1) \<Rightarrow> (AwaitInit f opts (Inr ()), c1)
                  | (Awaiting p, c1) \<Rightarrow> (AwaitInit f opts p, c1))))"

definition or_else :: "'a option \<Rightarrow> 'a option \<Rightarrow> 'a option" where
  "or_else a b = (case a of None \<Rightarrow> b | Some x \<Rightarrow> Some x)"

text \<open>
  The two virtual-file names of a job (the template strings of \<^verbatim>\<open>compress\<close>). Each
  reads \<^verbatim>\<open>Date.now()\<close>: a clock is the pair of the two readings, in milliseconds.
\<close>

type_synonym clock = "nat \<times> nat"

definition inputName_of :: "clock \<Rightarrow> File \<Rightarrow> string" where
  "inputName_of now f =
     ''input-'' @ String_nat (fst now) @ ''.'' @ guessExtension (file_name f) (file_type f)"

definition outputName_of :: "clock \<Rightarrow> ResolvedOutput \<Rightarrow> string" where
  "outputName_of now out =
     (if truthy_str (out_fileName out) then the (out_fileName out)
      else ''output-'' @ String_nat (snd now) @ ''.'' @
           (case out_container out of None \<Rightarrow> ''undefined'' | Some c \<Rightarrow> c))"

text \<open>
  The segment run when a suspended call is resumed; \<open>now\<close> is what the two calls of
  \<^verbatim>\<open>Date.now()\<close> return during the segment. A settled call stays as it is.
\<close>

fun resume ::
  "'e VideoCompressorConfig \<Rightarrow> 'e FFmpeg \<Rightarrow> clock \<Rightarrow> task \<Rightarrow> 'e VideoCompressor \<Rightarrow>
   task \<times> 'e VideoCompressor" where
  "resume cfg E now (InitPending p) c = (InitSettled p, c)"
| "resume cfg E now (InitSettled r) c = (InitSettled r, c)"
| "resume cfg E now (AwaitInit f opts p) c =
     (case p of
        Inl e \<Rightarrow> (Settled (Inl e), c)
      | Inr _ \<Rightarrow>
          let c1 = c\<lparr>activeJobHooks :=
                      \<lparr>onLog = or_else (job_onLog opts) (cfg_onLog cfg),
                       onProgress = or_else (job_onProgress opts) (cfg_onProgress cfg)\<rparr>\<rparr>;
              out = resolve_output (job_output opts);
              inputName = inputName_of now f;
              outputName = outputName_of now out
          in (case buildArgs inputName outputName opts out of
                Inl e \<Rightarrow> (Settled (Inl e), c1)
              | Inr args \<Rightarrow>
                  (case ffmpeg c1 of
                     None \<Rightarrow> (Settled (Inl NullEngine), c1)
                   | Some _ \<Rightarrow>
                       (AwaitFetch
                          \<lparr>job_inputName = inputName, job_outputName = outputName,
                           job_args = args, job_mimeType = out_mimeType out\<rparr>
                          (fileFetcher cfg f),
                        c1\<lparr>calls := calls c1 @ [CFetch f]\<rparr>))))"
| "resume cfg E now (AwaitFetch job r) c =
     (case r of
        Inl e \<Rightarrow> (Settled (Inl e), c)
      | Inr data \<Rightarrow>
          (case ffmpeg c of
             None \<Rightarrow> (Settled (Inl NullEngine), c)
           | Some e0 \<Rightarrow>
               let (p, e1) = ffmpeg_writeFile E (job_inputName job) data e0
               in (AwaitWrite job p,
                   c\<lparr>ffmpeg := Some e1,
                     calls := calls c @ [CWriteFile (job_inputName job) data]\<rparr>)))"
| "resume cfg E now (AwaitWrite job r) c =
     (case r of
        Inl e \<Rightarrow> (Settled (Inl e), c)
      | Inr _ \<Rightarrow>
          let c1 = c\<lparr>isRunningJob := True\<rparr>
          in (case ffmpeg c1 of
                None \<Rightarrow> (Settled (Inl NullEngine), finally_block E job c1)
              | Some e0 \<Rightarrow>
                  let (p, e1) = ffmpeg_exec E (job_args job) e0
                  in (AwaitExec job p,
                      c1\<lparr>ffmpeg := Some e1, calls := calls c1 @ [CExec (job_args job)]\<rparr>)))"
| "resume cfg E now (AwaitExec job r) c =
     (case r of
        Inl e \<Rightarrow> (Settled (Inl e), finally_block E job c)
      | Inr _ \<Rightarrow>
          (case ffmpeg c of
             None \<Rightarrow> (Settled (Inl NullEngine), finally_block E job c)
           | Some e0 \<Rightarrow>
               let (p, e1) = ffmpeg_readFile E (job_outputName job) e0
               in (AwaitRead job p,
                   c\<lparr>ffmpeg := Some e1,
                     calls := calls c @ [CReadFile (job_outputName job)]\<rparr>)))"
| "resume cfg E now (AwaitRead job r) c =
     (case r of
        Inl e \<Rightarrow> (Settled (Inl e), finally_block E job c)
      | Inr data \<Rightarrow>
          (Settled (Inr (new_Blob data (job_mimeType job))), finally_block E job c))"
| "resume cfg E now (Settled r) c = (Settled r, c)"

section \<open>Calls in flight on one instance\<close>

text \<open>
  JavaScript runs each synchronous segment to completion; between segments any other
  suspended call may be resumed or a new call made. An event starts a call (with a
  fresh identifier) or resumes a suspended one.
\<close>

record 'e system =
  vc :: "'e VideoCompressor"
  tasks :: "nat \<Rightarrow> task option"

datatype event =
    CallInit nat
  | CallCompress nat "File option" "CompressionOptions option"
  | Resume nat clock

definition initial :: "'e system" where
  "initial = \<lparr>vc = new_VideoCompressor, tasks = (\<lambda>_. None)\<rparr>"

fun step :: "'e VideoCompressorConfig \<Rightarrow> 'e FFmpeg \<Rightarrow> event \<Rightarrow> 'e system \<Rightarrow> 'e system" where
  "step cfg E (CallInit t) s =
     (if tasks s t \<noteq> None then s
      else
        let (r, c) = init cfg E (vc s)
        in s\<lparr>vc := c,
             tasks := (tasks s)
               (t \<mapsto> (case r of Returned \<Rightarrow> InitSettled (Inr ()) | Awaiting p \<Rightarrow> InitPending p))\<rparr>)"
| "step cfg E (CallCompress t file options) s =
     (if tasks s t \<noteq> None then s
      else
        let (k, c) = compress_start cfg E file options (vc s)
        in s\<lparr>vc := c, tasks := (tasks s)(t \<mapsto> k)\<rparr>)"
| "step cfg E (Resume t now) s =
     (case tasks s t of
        None \<Rightarrow> s
      | Some k \<Rightarrow>
          let (k', c) = resume cfg E now k (vc s)
          in s\<lparr>vc := c, tasks := (tasks s)(t \<mapsto> k')\<rparr>)"

definition run :: "'e VideoCompressorConfig \<Rightarrow> 'e FFmpeg \<Rightarrow> event list \<Rightarrow> 'e system \<Rightarrow> 'e system" where
  "run cfg E evs s = fold (step cfg E) evs s"

section \<open>Engine doubles\<close>

text \<open>
  \<^verbatim>\<open>StubFFmpeg\<close> of \<^verbatim>\<open>tests/video-compressor.test.js\<close>: every operation succeeds,
  \<^verbatim>\<open>readFile\<close> returns what was written under the name or three bytes, and \<^verbatim>\<open>FS\<close>
  returns \<^verbatim>\<open>true\<close> and changes nothing.
\<close>

record Stub =
  log_listeners :: nat
  progress_listeners :: nat
  writtenFiles :: "string \<Rightarrow> bytes option"
  execArgs :: "string list option"

definition createStubFFmpeg :: "FFmpegOptions \<Rightarrow> Stub" where
  "createStubFFmpeg opts =
     \<lparr>log_listeners = 0, progress_listeners = 0, writtenFiles = (\<lambda>_. None), execArgs = None\<rparr>"

definition StubFFmpeg :: "Stub FFmpeg" where
  "StubFFmpeg =
     \<lparr>ffmpeg_on = (\<lambda>event e.
        if event = ''log'' then e\<lparr>log_listeners := Suc (log_listeners e)\<rparr>
        else if event = ''progress'' then e\<lparr>progress_listeners := Suc (progress_listeners e)\<rparr>
        else e),
      ffmpeg_load = (\<lambda>e. (Inr (), e)),
      ffmpeg_writeFile = (\<lambda>name data e. (Inr (), e\<lparr>writtenFiles := (writtenFiles e)(name \<mapsto> data)\<rparr>)),
      ffmpeg_exec = (\<lambda>args e. (Inr (), e\<lparr>execArgs := Some args\<rparr>)),
      ffmpeg_readFile = (\<lambda>name e.
        (Inr (case writtenFiles e name of None \<Rightarrow> [1, 2, 3] | Some d \<Rightarrow> d), e)),
      ffmpeg_FS = (\<lambda>op path e. (Inr True, e))\<rparr>"

text \<open>The same double with a load step that rejects.\<close>

definition FailingLoadFFmpeg :: "Stub FFmpeg" where
  "FailingLoadFFmpeg = StubFFmpeg\<lparr>ffmpeg_load := (\<lambda>e. (Inl (External ''load failed''), e))\<rparr>"

text \<open>
  A double whose \<^verbatim>\<open>FS\<close> is a file system over the written entries: \<^verbatim>\<open>stat\<close> and
  \<^verbatim>\<open>unlink\<close> throw on a missing entry, \<^verbatim>\<open>unlink\<close> removes an entry, \<^verbatim>\<open>exec\<close> writes
  the entry named by its last argument, and \<^verbatim>\<open>readFile\<close> rejects on a missing entry.
\<close>

definition MemFFmpeg :: "Stub FFmpeg" where
  "MemFFmpeg =
     StubFFmpeg
       \<lparr>ffmpeg_exec := (\<lambda>args e.
          if args = [] then (Inl (External ''no arguments''), e)
          else (Inr (), e\<lparr>writtenFiles := (writtenFiles e)(last args \<mapsto> [1, 2, 3]),
                          execArgs := Some args\<rparr>)),
        ffmpeg_readFile := (\<lambda>name e.
          (case writtenFiles e name of
             None \<Rightarrow> (Inl (External ''ENOENT''), e)
           | Some d \<Rightarrow> (Inr d, e))),
        ffmpeg_FS := (\<lambda>op path e.
          (case writtenFiles e path of
             None \<Rightarrow> (Inl (External ''ENOENT''), e)
           | Some d \<Rightarrow>
               (case op of
                  Stat \<Rightarrow> (Inr True, e)
                | Unlink \<Rightarrow> (Inr True, e\<lparr>writtenFiles := (writtenFiles e)(path := None)\<rparr>))))\<rparr>"

text \<open>An instance in the middle of a job: both virtual files exist, the job is marked running.\<close>

definition running_job :: Job where
  "running_job =
     \<lparr>job_inputName = ''input-0.mp4'', job_outputName = ''output-0.mp4'',
      job_args = [''-i'', ''input-0.mp4'', ''-c:v'', ''copy'', ''-c:a'', ''copy'',
                  ''-movflags'', ''+faststart'', ''-y'', ''output-0.mp4''],
      job_mimeType = Some ''video/mp4''\<rparr>"

definition running_engine :: Stub where
  "running_engine =
     \<lparr>log_listeners = 1, progress_listeners = 1,
      writtenFiles = [''input-0.mp4'' \<mapsto> [0], ''output-0.mp4'' \<mapsto> [1, 2, 3]],
      execArgs = Some (job_args running_job)\<rparr>"

definition running_instance :: "Stub VideoCompressor" where
  "running_instance =
     \<lparr>ffmpeg = Some running_engine, loadingPromise = Some (Inr ()),
      activeJobHooks = \<lparr>onLog = Some 1, onProgress = Some 2\<rparr>,
      isRunningJob = True, calls = []\<rparr>"

definition testConfig :: "Stub VideoCompressorConfig" where
  "testConfig =
     \<lparr>corePath = None, cfg_log = True, ffmpegFactory = createStubFFmpeg,
      fileFetcher = (\<lambda>f. Inr [0]), cfg_onLog = None, cfg_onProgress = None\<rparr>"

definition videoFile :: File where
  "videoFile = \<lparr>file_name = ''sample.mp4'', file_type = ''video/mp4''\<rparr>"

definition no_options :: CompressionOptions where
  "no_options =
     \<lparr>mode = None, video = None, audio = None, job_output = None,
      job_onProgress = None, job_onLog = None\<rparr>"

text \<open>
  Two \<^verbatim>\<open>compress\<close> calls made one after the other without awaiting the first, and the
  two calls resumed in turn three times each.
\<close>

definition two_calls :: "event list" where
  "two_calls =
     [CallCompress 1 (Some videoFile) (Some (no_options\<lparr>mode := Some COPY\<rparr>)),
      CallCompress 2 (Some videoFile) (Some (no_options\<lparr>mode := Some COPY_MUTE\<rparr>))]"

definition resumed_in_turn :: "event list" where
  "resumed_in_turn =
     [Resume 1 (0, 0), Resume 2 (0, 0), Resume 1 (0, 0), Resume 2 (0, 0), Resume 1 (0, 0),
      Resume 2 (0, 0)]"

text \<open>The options of the second test: both \<^verbatim>\<open>crf\<close> and \<^verbatim>\<open>bitrate\<close> for the video.\<close>

definition conflicting_options :: CompressionOptions where
  "conflicting_options =
     \<lparr>mode = Some REENCODE,
      video = Some \<lparr>vcodec = None, crf = Some (Integer 20), vbitrate = Some ''1M'', preset = None,
                    scale = None\<rparr>,
      audio = None, job_output = None, job_onProgress = None, job_onLog = None\<rparr>"

section \<open>Notions used to state the properties\<close>

text \<open>How often the engine factory and the load step were invoked.\<close>

definition creations :: "call list \<Rightarrow> nat" where
  "creations cs = length (filter (\<lambda>x. case x of CFactory _ \<Rightarrow> True | _ \<Rightarrow> False) cs)"

definition loads :: "call list \<Rightarrow> nat" where
  "loads cs = length (filter (\<lambda>x. x = CLoad) cs)"

text \<open>The invocations a job makes once it is past \<^verbatim>\<open>init()\<close>.\<close>

fun job_call :: "call \<Rightarrow> bool" where
  "job_call (CFactory _) = False"
| "job_call (COn _) = False"
| "job_call CLoad = False"
| "job_call _ = True"

text \<open>The job of a call suspended inside the \<^verbatim>\<open>try\<close> block of \<^verbatim>\<open>compress\<close>.\<close>

fun in_try :: "task \<Rightarrow> Job option" where
  "in_try (AwaitExec job _) = Some job"
| "in_try (AwaitRead job _) = Some job"
| "in_try _ = None"

text \<open>
  An engine whose \<^verbatim>\<open>FS\<close> behaves as a file system over the entries \<open>files e\<close>:
  \<^verbatim>\<open>stat\<close> changes no entry and is truthy on an entry that exists, and after
  \<^verbatim>\<open>unlink\<close> the entry is gone and the others are as before.
\<close>

definition lawful_fs :: "'e FFmpeg \<Rightarrow> ('e \<Rightarrow> string set) \<Rightarrow> bool" where
  "lawful_fs E files =
     (\<forall>p e. files (snd (ffmpeg_FS E Stat p e)) = files e \<and>
            (p \<in> files e \<longrightarrow> fst (ffmpeg_FS E Stat p e) = Inr True) \<and>
            files (snd (ffmpeg_FS E Unlink p e)) = files e - {p})"

text \<open>
  The factory (which returns) and the load step have been invoked at most as often as
  the instance holds an engine: never without one, at most once with one.
\<close>

definition counted :: "'e VideoCompressor \<Rightarrow> bool" where
  "counted c = (loads (calls c) \<le> (if ffmpeg c = None then 0 else 1) \<and>
                creations (calls c) \<le> (if ffmpeg c = None then 0 else 1))"

text \<open>The rejection that the promise awaited by a suspended call delivers, if it does.\<close>

fun pending_error :: "task \<Rightarrow> error option" where
  "pending_error (InitPending (Inl e)) = Some e"
| "pending_error (AwaitInit _ _ (Inl e)) = Some e"
| "pending_error (AwaitFetch _ (Inl e)) = Some e"
| "pending_error (AwaitWrite _ (Inl e)) = Some e"
| "pending_error (AwaitExec _ (Inl e)) = Some e"
| "pending_error (AwaitRead _ (Inl e)) = Some e"
| "pending_error _ = None"

text \<open>A call resumed \<open>k\<close> times with no other call run in between.\<close>

definition resumed ::
  "'e VideoCompressorConfig \<Rightarrow> 'e FFmpeg \<Rightarrow> clock \<Rightarrow> nat \<Rightarrow> task \<times> 'e VideoCompressor \<Rightarrow>
   task \<times> 'e VideoCompressor" where
  "resumed cfg E now k x = ((\<lambda>(t, c). resume cfg E now t c) ^^ k) x"

text \<open>
  What the specification says \<^verbatim>\<open>compress\<close> delivers, once the engine \<open>e0\<close> is there: the
  blob of the bytes read from the output name on success, and otherwise the error of
  the option validation, of the fetch step, or of the engine's write, exec or read,
  unchanged.
\<close>

definition propagated ::
  "'e VideoCompressorConfig \<Rightarrow> 'e FFmpeg \<Rightarrow> clock \<Rightarrow> File \<Rightarrow> CompressionOptions \<Rightarrow> 'e \<Rightarrow>
   error + Blob" where
  "propagated cfg E now f opts e0 =
     (let out = resolve_output (job_output opts);
          inputName = inputName_of now f;
          outputName = outputName_of now out
      in case buildArgs inputName outputName opts out of
           Inl e \<Rightarrow> Inl e
         | Inr args \<Rightarrow>
             (case fileFetcher cfg f of
                Inl e \<Rightarrow> Inl e
              | Inr data \<Rightarrow>
                  (case ffmpeg_writeFile E inputName data e0 of
                     (Inl e, _) \<Rightarrow> Inl e
                   | (Inr _, e1) \<Rightarrow>
                       (case ffmpeg_exec E args e1 of
                          (Inl e, _) \<Rightarrow> Inl e
                        | (Inr _, e2) \<Rightarrow>
                            (case ffmpeg_readFile E outputName e2 of
                               (Inl e, _) \<Rightarrow> Inl e
                             | (Inr bytes, _) \<Rightarrow> Inr (new_Blob bytes (out_mimeType out)))))))"

text \<open>The engine object as \<^verbatim>\<open>init()\<close> has it when it invokes \<^verbatim>\<open>load()\<close>.\<close>

definition created :: "'e VideoCompressorConfig \<Rightarrow> 'e FFmpeg \<Rightarrow> 'e" where
  "created cfg E = ffmpeg_on E ''progress'' (ffmpeg_on E ''log'' (ffmpegFactory cfg (ffmpegOptions cfg)))"

section \<open>Properties of the argument builder\<close>

lemma String_int_minus_two: "String_int (- 2) = ''-2''"
  by code_simp

lemma modes_distinct [simp]:
  "COPY \<noteq> COPY_MUTE" "COPY \<noteq> REENCODE" "COPY_MUTE \<noteq> REENCODE"
  "COPY_MUTE \<noteq> COPY" "REENCODE \<noteq> COPY" "REENCODE \<noteq> COPY_MUTE"
  by (simp_all add: COPY_def COPY_MUTE_def REENCODE_def)

lemma buildArgs_copy:
  "mode opts = Some COPY \<Longrightarrow> buildArgs i out opts ro =
     Inr [''-i'', i, ''-c:v'', ''copy'', ''-c:a'', ''copy'', ''-movflags'', ''+faststart'', ''-y'', out]"
  by (simp add: buildArgs_def)

lemma buildArgs_copy_mute:
  "mode opts = Some COPY_MUTE \<Longrightarrow> buildArgs i out opts ro =
     Inr [''-i'', i, ''-c:v'', ''copy'', ''-an'', ''-movflags'', ''+faststart'', ''-y'', out]"
  by (simp add: buildArgs_def)

lemma buildArgs_reencode:
  "mode opts = Some REENCODE \<Longrightarrow> buildArgs i out opts ro =
     (case applyVideoOptions [''-i'', i] (video opts) of
        Inl e \<Rightarrow> Inl e
      | Inr r \<Rightarrow> Inr (applyAudioOptions r (audio opts) @ [''-movflags'', ''+faststart'', ''-y'', out]))"
  by (simp add: buildArgs_def split: sum.splits)

lemma buildArgs_unsupported:
  "mode opts \<noteq> Some COPY \<Longrightarrow> mode opts \<noteq> Some COPY_MUTE \<Longrightarrow> mode opts \<noteq> Some REENCODE \<Longrightarrow>
   \<exists>e. buildArgs i out opts ro = Inl e"
  by (simp add: buildArgs_def)

lemma applyAudioOptions_append: "applyAudioOptions args a = args @ applyAudioOptions [] a"
  by (simp add: applyAudioOptions_def Let_def)

lemma applyVideoOptions_append:
  "applyVideoOptions args v = Inr r \<Longrightarrow> \<exists>m. r = args @ m"
  by (auto simp: applyVideoOptions_def Let_def split: if_splits option.splits)

lemma buildArgs_shape:
  assumes "buildArgs i out opts ro = Inr args"
  shows "\<exists>mid. args = ''-i'' # i # mid @ [''-y'', out]"
proof -
  consider "mode opts = Some COPY" | "mode opts = Some COPY_MUTE" | "mode opts = Some REENCODE"
    | "mode opts \<noteq> Some COPY" "mode opts \<noteq> Some COPY_MUTE" "mode opts \<noteq> Some REENCODE"
    by blast
  then show ?thesis
  proof cases
    case 1
    with assms have "args = ''-i'' # i #
        [''-c:v'', ''copy'', ''-c:a'', ''copy'', ''-movflags'', ''+faststart''] @ [''-y'', out]"
      by (simp add: buildArgs_copy)
    then show ?thesis by blast
  next
    case 2
    with assms have "args = ''-i'' # i #
        [''-c:v'', ''copy'', ''-an'', ''-movflags'', ''+faststart''] @ [''-y'', out]"
      by (simp add: buildArgs_copy_mute)
    then show ?thesis by blast
  next
    case 3
    with assms obtain r where r: "applyVideoOptions [''-i'', i] (video opts) = Inr r"
      and a: "args = applyAudioOptions r (audio opts) @ [''-movflags'', ''+faststart'', ''-y'', out]"
      by (auto simp: buildArgs_reencode split: sum.splits)
    from applyVideoOptions_append[OF r] obtain m where "r = [''-i'', i] @ m" by blast
    with a have "args = ''-i'' # i #
        (m @ applyAudioOptions [] (audio opts) @ [''-movflags'', ''+faststart'']) @ [''-y'', out]"
      using applyAudioOptions_append[of r] by simp
    then show ?thesis by blast
  next
    case 4
    with assms show ?thesis using buildArgs_unsupported[of opts i out ro] by auto
  qed
qed

text \<open>
  Claim C4. Whenever \<^verbatim>\<open>#buildArgs\<close> returns a list (it throws for an unknown mode and
  for conflicting video options), the list starts with \<^verbatim>\<open>-i\<close> and the input name and
  ends with \<^verbatim>\<open>-y\<close> and the output name. For mode copy the directives between the two
  pairs are video copy, audio copy and the fast-start flag; for mode copy-mute they
  are video copy, \<^verbatim>\<open>-an\<close> and the fast-start flag, with no \<^verbatim>\<open>-c:a\<close> among them. In
  these two modes a list is always returned.
\<close>

theorem buildArgs_frame:
  "(buildArgs i out opts ro = Inr args \<longrightarrow>
      take 2 args = [''-i'', i] \<and> drop (length args - 2) args = [''-y'', out] \<and>
      (mode opts = Some COPY \<longrightarrow>
         take (length args - 4) (drop 2 args) =
           [''-c:v'', ''copy'', ''-c:a'', ''copy'', ''-movflags'', ''+faststart'']) \<and>
      (mode opts = Some COPY_MUTE \<longrightarrow>
         take (length args - 4) (drop 2 args) =
           [''-c:v'', ''copy'', ''-an'', ''-movflags'', ''+faststart''] \<and>
         ''-c:a'' \<notin> set (take (length args - 4) (drop 2 args)))) \<and>
   (mode opts = Some COPY \<or> mode opts = Some COPY_MUTE \<longrightarrow>
      (\<exists>built. buildArgs i out opts ro = Inr built))"
proof -
  have A: "buildArgs i out opts ro = Inr args \<longrightarrow>
      take 2 args = [''-i'', i] \<and> drop (length args - 2) args = [''-y'', out] \<and>
      (mode opts = Some COPY \<longrightarrow>
         take (length args - 4) (drop 2 args) =
           [''-c:v'', ''copy'', ''-c:a'', ''copy'', ''-movflags'', ''+faststart'']) \<and>
      (mode opts = Some COPY_MUTE \<longrightarrow>
         take (length args - 4) (drop 2 args) =
           [''-c:v'', ''copy'', ''-an'', ''-movflags'', ''+faststart''] \<and>
         ''-c:a'' \<notin> set (take (length args - 4) (drop 2 args)))"
  proof
    assume b: "buildArgs i out opts ro = Inr args"
    from buildArgs_shape[OF b] obtain mid where m: "args = ''-i'' # i # mid @ [''-y'', out]"
      by blast
    then have ends: "take 2 args = [''-i'', i] \<and> drop (length args - 2) args = [''-y'', out]"
      by simp
    have c: "mode opts = Some COPY \<longrightarrow>
         take (length args - 4) (drop 2 args) =
           [''-c:v'', ''copy'', ''-c:a'', ''copy'', ''-movflags'', ''+faststart'']"
      using b by (auto simp: buildArgs_copy)
    have cm: "mode opts = Some COPY_MUTE \<longrightarrow>
         take (length args - 4) (drop 2 args) =
           [''-c:v'', ''copy'', ''-an'', ''-movflags'', ''+faststart''] \<and>
         ''-c:a'' \<notin> set (take (length args - 4) (drop 2 args))"
      using b by (auto simp: buildArgs_copy_mute)
    from ends c cm show "take 2 args = [''-i'', i] \<and> drop (length args - 2) args = [''-y'', out] \<and>
      (mode opts = Some COPY \<longrightarrow>
         take (length args - 4) (drop 2 args) =
           [''-c:v'', ''copy'', ''-c:a'', ''copy'', ''-movflags'', ''+faststart'']) \<and>
      (mode opts = Some COPY_MUTE \<longrightarrow>
         take (length args - 4) (drop 2 args) =
           [''-c:v'', ''copy'', ''-an'', ''-movflags'', ''+faststart''] \<and>
         ''-c:a'' \<notin> set (take (length args - 4) (drop 2 args)))"
      by blast
  qed
  have B: "mode opts = Some COPY \<or> mode opts = Some COPY_MUTE \<longrightarrow>
      (\<exists>built. buildArgs i out opts ro = Inr built)"
    by (auto simp: buildArgs_copy buildArgs_copy_mute)
  from A B show ?thesis by blast
qed

theorem buildArgs_frame_witness:
  "buildArgs ''input-0.mp4'' ''-c:a'' (no_options\<lparr>mode := Some COPY_MUTE\<rparr>) (resolve_output None) =
     Inr [''-i'', ''input-0.mp4'', ''-c:v'', ''copy'', ''-an'', ''-movflags'', ''+faststart'',
          ''-y'', ''-c:a''] \<and>
   take 2 [''-i'', ''input-0.mp4'', ''-c:v'', ''copy'', ''-an'', ''-movflags'', ''+faststart'',
          ''-y'', ''-c:a''] = [''-i'', ''input-0.mp4''] \<and>
   drop 7 [''-i'', ''input-0.mp4'', ''-c:v'', ''copy'', ''-an'', ''-movflags'', ''+faststart'',
          ''-y'', ''-c:a''] = [''-y'', ''-c:a''] \<and>
   ''-c:a'' \<notin> set [''-c:v'', ''copy'', ''-an'', ''-movflags'', ''+faststart'']"
proof -
  have h: "buildArgs ''input-0.mp4'' ''-c:a'' (no_options\<lparr>mode := Some COPY_MUTE\<rparr>)
      (resolve_output None) =
     Inr [''-i'', ''input-0.mp4'', ''-c:v'', ''copy'', ''-an'', ''-movflags'', ''+faststart'',
          ''-y'', ''-c:a'']"
    by (simp add: buildArgs_def no_options_def)
  have m: "mode (no_options\<lparr>mode := Some COPY_MUTE\<rparr>) = Some COPY_MUTE"
    by simp
  show ?thesis
    using h m
      buildArgs_frame [of "''input-0.mp4''" "''-c:a''" "no_options\<lparr>mode := Some COPY_MUTE\<rparr>"
        "resolve_output None"
        "[''-i'', ''input-0.mp4'', ''-c:v'', ''copy'', ''-an'', ''-movflags'', ''+faststart'',
          ''-y'', ''-c:a'']"]
    by simp
qed

text \<open>
  Claim C5. In mode reencode the audio arguments follow the precedence: a true
  \<^verbatim>\<open>audio.mute\<close> gives \<^verbatim>\<open>-an\<close> and nothing else; otherwise a given codec is selected;
  otherwise a requested bitrate selects \<^verbatim>\<open>aac\<close>; otherwise the audio is copied; and a
  given bitrate (audio not muted) appends \<^verbatim>\<open>-b:a\<close> with it. A codec or bitrate is given
  when it is a non-empty string, which is the source's test. The last conjunct places the
  audio arguments in the list of \<^verbatim>\<open>#buildArgs\<close>: after the video arguments and before the
  fast-start flag.
\<close>

theorem audio_precedence:
  "(mute a = Some True \<longrightarrow> applyAudioOptions args (Some a) = args @ [''-an'']) \<and>
   (mute a \<noteq> Some True \<and> acodec a = Some c \<and> c \<noteq> [] \<and> abitrate a = Some b \<and> b \<noteq> [] \<longrightarrow>
      applyAudioOptions args (Some a) = args @ [''-c:a'', c, ''-b:a'', b]) \<and>
   (mute a \<noteq> Some True \<and> acodec a = Some c \<and> c \<noteq> [] \<and> \<not> truthy_str (abitrate a) \<longrightarrow>
      applyAudioOptions args (Some a) = args @ [''-c:a'', c]) \<and>
   (mute a \<noteq> Some True \<and> \<not> truthy_str (acodec a) \<and> abitrate a = Some b \<and> b \<noteq> [] \<longrightarrow>
      applyAudioOptions args (Some a) = args @ [''-c:a'', ''aac'', ''-b:a'', b]) \<and>
   (mute a \<noteq> Some True \<and> \<not> truthy_str (acodec a) \<and> \<not> truthy_str (abitrate a) \<longrightarrow>
      applyAudioOptions args (Some a) = args @ [''-c:a'', ''copy'']) \<and>
   applyAudioOptions args None = args @ [''-c:a'', ''copy''] \<and>
   (mode opts = Some REENCODE \<and> applyVideoOptions [''-i'', i] (video opts) = Inr r \<longrightarrow>
      buildArgs i out opts ro =
        Inr (applyAudioOptions r (audio opts) @ [''-movflags'', ''+faststart'', ''-y'', out]))"
  by (auto simp: applyAudioOptions_def Let_def truthy_bool_def truthy_str_def no_audio_def
      buildArgs_reencode split: option.splits)

lemma String_int_23: "String_int 23 = ''23''" by code_simp

theorem audio_precedence_witness:
  "mute (no_audio\<lparr>abitrate := Some ''128k''\<rparr>) \<noteq> Some True \<and>
   \<not> truthy_str (acodec (no_audio\<lparr>abitrate := Some ''128k''\<rparr>)) \<and>
   buildArgs ''in.mp4'' ''out.mp4''
     (no_options\<lparr>mode := Some REENCODE,
        video := Some (no_video\<lparr>crf := Some (Integer 23), preset := Some ''medium''\<rparr>),
        audio := Some (no_audio\<lparr>abitrate := Some ''128k''\<rparr>)\<rparr>) (resolve_output None) =
     Inr [''-i'', ''in.mp4'', ''-c:v'', ''libx264'', ''-crf'', ''23'', ''-preset'', ''medium'',
          ''-c:a'', ''aac'', ''-b:a'', ''128k'', ''-movflags'', ''+faststart'', ''-y'', ''out.mp4'']"
proof -
  have v: "applyVideoOptions [''-i'', ''in.mp4'']
      (video (no_options\<lparr>mode := Some REENCODE,
        video := Some (no_video\<lparr>crf := Some (Integer 23), preset := Some ''medium''\<rparr>),
        audio := Some (no_audio\<lparr>abitrate := Some ''128k''\<rparr>)\<rparr>)) =
      Inr [''-i'', ''in.mp4'', ''-c:v'', ''libx264'', ''-crf'', ''23'', ''-preset'', ''medium'']"
    by (simp add: applyVideoOptions_def no_video_def String_int_23)
  show ?thesis
    using v audio_precedence [of "no_audio\<lparr>abitrate := Some ''128k''\<rparr>"
        "[''-i'', ''in.mp4'', ''-c:v'', ''libx264'', ''-crf'', ''23'', ''-preset'', ''medium'']"
        "''''" "''128k''"
        "no_options\<lparr>mode := Some REENCODE,
          video := Some (no_video\<lparr>crf := Some (Integer 23), preset := Some ''medium''\<rparr>),
          audio := Some (no_audio\<lparr>abitrate := Some ''128k''\<rparr>)\<rparr>"
        "''in.mp4''"
        "[''-i'', ''in.mp4'', ''-c:v'', ''libx264'', ''-crf'', ''23'', ''-preset'', ''medium'']"
        "''out.mp4''" "resolve_output None"]
    by (simp add: no_audio_def truthy_str_def no_options_def)
qed

lemma applyVideoOptions_scale:
  assumes "scale v = Some s" "truthy_num (width s) \<or> truthy_num (height s)"
  shows "applyVideoOptions args (Some v) =
     map_sum id (\<lambda>r. r @ [''-vf'', scale_filter s]) (applyVideoOptions args (Some (v\<lparr>scale := None\<rparr>)))"
  using assms by (simp add: applyVideoOptions_def Let_def split: option.splits)

lemma applyVideoOptions_no_scale:
  assumes "scale v = None \<or> (scale v = Some s \<and> \<not> truthy_num (width s) \<and> \<not> truthy_num (height s))"
  shows "applyVideoOptions args (Some v) = applyVideoOptions args (Some (v\<lparr>scale := None\<rparr>))"
  using assms by (auto simp add: applyVideoOptions_def Let_def split: option.splits)

lemma scale_filter_form:
  "scale_filter s =
     ''scale='' @ (case width s of None \<Rightarrow> ''-2'' | Some x \<Rightarrow> String_num x) @ '':'' @
       (case height s of None \<Rightarrow> ''-2'' | Some x \<Rightarrow> String_num x)"
  by (simp add: scale_filter_def String_int_minus_two Let_def split: option.splits)

text \<open>
  Claim C8, amended. In mode reencode, a scale option with at least one truthy dimension
  (a number other than 0 and \<^verbatim>\<open>NaN\<close>) puts the pair \<^verbatim>\<open>-vf\<close>, \<^verbatim>\<open>scale=<width>:<height>\<close>
  right after the other video arguments, each dimension as \<^verbatim>\<open>String\<close> renders it and an
  undefined dimension written as \<^verbatim>\<open>-2\<close>. With no scale option, or with no truthy
  dimension (each is undefined, 0 or \<^verbatim>\<open>NaN\<close>), the list is the one built without the
  scale option: no filter argument is appended.
\<close>

theorem scale_filter_args:
  "(mode opts = Some REENCODE \<and> video opts = Some v \<and> scale v = Some s \<and>
    (truthy_num (width s) \<or> truthy_num (height s)) \<and>
    buildArgs i out opts ro = Inr args \<longrightarrow>
      (\<exists>pre. applyVideoOptions [''-i'', i] (Some (v\<lparr>scale := None\<rparr>)) = Inr pre \<and>
         args = pre @
           [''-vf'', ''scale='' @ (case width s of None \<Rightarrow> ''-2'' | Some x \<Rightarrow> String_num x) @ '':'' @
                      (case height s of None \<Rightarrow> ''-2'' | Some x \<Rightarrow> String_num x)] @
           applyAudioOptions [] (audio opts) @ [''-movflags'', ''+faststart'', ''-y'', out])) \<and>
   (mode opts = Some REENCODE \<and> video opts = Some v \<and>
    (scale v = None \<or>
     (scale v = Some s \<and> \<not> truthy_num (width s) \<and> \<not> truthy_num (height s))) \<longrightarrow>
      buildArgs i out opts ro = buildArgs i out (opts\<lparr>video := Some (v\<lparr>scale := None\<rparr>)\<rparr>) ro) \<and>
   (mode opts = Some REENCODE \<and> video opts = None \<longrightarrow>
      buildArgs i out opts ro = buildArgs i out (opts\<lparr>video := Some no_video\<rparr>) ro) \<and>
   (truthy_num d \<longleftrightarrow> d \<noteq> None \<and> d \<noteq> Some (Integer 0) \<and> d \<noteq> Some NaN)"
proof -
  have A: "mode opts = Some REENCODE \<and> video opts = Some v \<and> scale v = Some s \<and>
    (truthy_num (width s) \<or> truthy_num (height s)) \<and>
    buildArgs i out opts ro = Inr args \<longrightarrow>
      (\<exists>pre. applyVideoOptions [''-i'', i] (Some (v\<lparr>scale := None\<rparr>)) = Inr pre \<and>
         args = pre @
           [''-vf'', ''scale='' @ (case width s of None \<Rightarrow> ''-2'' | Some x \<Rightarrow> String_num x) @ '':'' @
                      (case height s of None \<Rightarrow> ''-2'' | Some x \<Rightarrow> String_num x)] @
           applyAudioOptions [] (audio opts) @ [''-movflags'', ''+faststart'', ''-y'', out])"
  proof
    assume a: "mode opts = Some REENCODE \<and> video opts = Some v \<and> scale v = Some s \<and>
      (truthy_num (width s) \<or> truthy_num (height s)) \<and>
      buildArgs i out opts ro = Inr args"
    then have t: "truthy_num (width s) \<or> truthy_num (height s)" by simp
    from a have sc: "scale v = Some s" by simp
    from a obtain r where r: "applyVideoOptions [''-i'', i] (Some v) = Inr r"
      and args: "args = applyAudioOptions r (audio opts) @ [''-movflags'', ''+faststart'', ''-y'', out]"
      by (auto simp: buildArgs_reencode split: sum.splits)
    from r applyVideoOptions_scale[OF sc t, of "[''-i'', i]"]
    obtain pre where pre: "applyVideoOptions [''-i'', i] (Some (v\<lparr>scale := None\<rparr>)) = Inr pre"
      and rp: "r = pre @ [''-vf'', scale_filter s]"
      by (cases "applyVideoOptions [''-i'', i] (Some (v\<lparr>scale := None\<rparr>))") auto
    from args rp have "args = pre @ [''-vf'', scale_filter s] @
        applyAudioOptions [] (audio opts) @ [''-movflags'', ''+faststart'', ''-y'', out]"
      using applyAudioOptions_append[of r] by simp
    with pre show "\<exists>pre. applyVideoOptions [''-i'', i] (Some (v\<lparr>scale := None\<rparr>)) = Inr pre \<and>
         args = pre @
           [''-vf'', ''scale='' @ (case width s of None \<Rightarrow> ''-2'' | Some x \<Rightarrow> String_num x) @ '':'' @
                      (case height s of None \<Rightarrow> ''-2'' | Some x \<Rightarrow> String_num x)] @
           applyAudioOptions [] (audio opts) @ [''-movflags'', ''+faststart'', ''-y'', out]"
      by (simp add: scale_filter_form)
  qed
  have B: "mode opts = Some REENCODE \<and> video opts = Some v \<and>
    (scale v = None \<or>
     (scale v = Some s \<and> \<not> truthy_num (width s) \<and> \<not> truthy_num (height s))) \<longrightarrow>
      buildArgs i out opts ro = buildArgs i out (opts\<lparr>video := Some (v\<lparr>scale := None\<rparr>)\<rparr>) ro"
  proof
    assume a: "mode opts = Some REENCODE \<and> video opts = Some v \<and>
      (scale v = None \<or>
       (scale v = Some s \<and> \<not> truthy_num (width s) \<and> \<not> truthy_num (height s)))"
    then have "scale v = None \<or>
        (scale v = Some s \<and> \<not> truthy_num (width s) \<and> \<not> truthy_num (height s))"
      by simp
    from applyVideoOptions_no_scale[OF this] a
    show "buildArgs i out opts ro = buildArgs i out (opts\<lparr>video := Some (v\<lparr>scale := None\<rparr>)\<rparr>) ro"
      by (simp add: buildArgs_reencode cong: sum.case_cong)
  qed
  have C: "mode opts = Some REENCODE \<and> video opts = None \<longrightarrow>
      buildArgs i out opts ro = buildArgs i out (opts\<lparr>video := Some no_video\<rparr>) ro"
  proof
    assume a: "mode opts = Some REENCODE \<and> video opts = None"
    have "applyVideoOptions [''-i'', i] None = applyVideoOptions [''-i'', i] (Some no_video)"
      by (simp add: applyVideoOptions_def)
    with a show "buildArgs i out opts ro = buildArgs i out (opts\<lparr>video := Some no_video\<rparr>) ro"
      by (simp add: buildArgs_reencode cong: sum.case_cong)
  qed
  have D: "truthy_num d \<longleftrightarrow> d \<noteq> None \<and> d \<noteq> Some (Integer 0) \<and> d \<noteq> Some NaN"
    by (simp add: truthy_num_def split: option.splits number.splits)
  from A B C D show ?thesis by blast
qed

text \<open>
  The claim as stated fails for a dimension that is present but zero: with
  \<^verbatim>\<open>scale: {width: 0}\<close> no filter argument is built.
\<close>

theorem scale_zero_width_counterexample:
  "buildArgs ''input-0.mp4'' ''output-0.mp4''
     (no_options\<lparr>mode := Some REENCODE,
        video := Some (no_video\<lparr>scale := Some \<lparr>width = Some (Integer 0), height = None\<rparr>\<rparr>)\<rparr>)
     (resolve_output None) =
   Inr [''-i'', ''input-0.mp4'', ''-c:v'', ''libx264'', ''-c:a'', ''copy'',
        ''-movflags'', ''+faststart'', ''-y'', ''output-0.mp4'']"
  by (simp add: buildArgs_reencode no_options_def no_video_def applyVideoOptions_def
      applyAudioOptions_def no_audio_def truthy_num_def truthy_bool_def truthy_str_def)

text \<open>
  A zero width next to a height is written as it is, not replaced by \<^verbatim>\<open>-2\<close>; a width
  that is \<^verbatim>\<open>NaN\<close> builds no filter argument either, and a fraction is written as
  \<^verbatim>\<open>String\<close> renders it.
\<close>

lemma scale_zero_width_with_height:
  "buildArgs ''input-0.mp4'' ''output-0.mp4''
     (no_options\<lparr>mode := Some REENCODE,
        video := Some (no_video\<lparr>scale := Some \<lparr>width = Some (Integer 0), height = Some (Integer 720)\<rparr>\<rparr>)\<rparr>)
     (resolve_output None) =
   Inr [''-i'', ''input-0.mp4'', ''-c:v'', ''libx264'', ''-vf'', ''scale=0:720'', ''-c:a'', ''copy'',
        ''-movflags'', ''+faststart'', ''-y'', ''output-0.mp4'']"
  by code_simp

lemma scale_NaN_width:
  "buildArgs ''input-0.mp4'' ''output-0.mp4''
     (no_options\<lparr>mode := Some REENCODE,
        video := Some (no_video\<lparr>scale := Some \<lparr>width = Some NaN, height = None\<rparr>\<rparr>)\<rparr>)
     (resolve_output None) =
   Inr [''-i'', ''input-0.mp4'', ''-c:v'', ''libx264'', ''-c:a'', ''copy'',
        ''-movflags'', ''+faststart'', ''-y'', ''output-0.mp4'']"
  by code_simp

lemma scale_fraction_width:
  "buildArgs ''input-0.mp4'' ''output-0.mp4''
     (no_options\<lparr>mode := Some REENCODE,
        video := Some (no_video\<lparr>scale := Some \<lparr>width = Some (Other ''640.5''), height = None\<rparr>\<rparr>)\<rparr>)
     (resolve_output None) =
   Inr [''-i'', ''input-0.mp4'', ''-c:v'', ''libx264'', ''-vf'', ''scale=640.5:-2'', ''-c:a'', ''copy'',
        ''-movflags'', ''+faststart'', ''-y'', ''output-0.mp4'']"
  by code_simp

lemma String_int_1280: "String_int 1280 = ''1280''" by code_simp

theorem scale_filter_args_witness:
  "buildArgs ''input-0.mp4'' ''output-0.mp4''
     (no_options\<lparr>mode := Some REENCODE,
        video := Some (no_video\<lparr>scale := Some \<lparr>width = Some (Integer 1280), height = None\<rparr>\<rparr>)\<rparr>)
     (resolve_output None) =
   Inr [''-i'', ''input-0.mp4'', ''-c:v'', ''libx264'', ''-vf'', ''scale=1280:-2'', ''-c:a'', ''copy'',
        ''-movflags'', ''+faststart'', ''-y'', ''output-0.mp4'']"
proof -
  have h: "buildArgs ''input-0.mp4'' ''output-0.mp4''
     (no_options\<lparr>mode := Some REENCODE,
        video := Some (no_video\<lparr>scale := Some \<lparr>width = Some (Integer 1280), height = None\<rparr>\<rparr>)\<rparr>)
     (resolve_output None) =
   Inr [''-i'', ''input-0.mp4'', ''-c:v'', ''libx264'', ''-vf'', ''scale=1280:-2'', ''-c:a'', ''copy'',
        ''-movflags'', ''+faststart'', ''-y'', ''output-0.mp4'']"
    by (simp add: buildArgs_reencode no_options_def no_video_def applyVideoOptions_def
        applyAudioOptions_def no_audio_def truthy_num_def truthy_bool_def truthy_str_def
        scale_filter_form String_int_1280)
  show ?thesis
    using h
      scale_filter_args [of
        "no_options\<lparr>mode := Some REENCODE,
           video := Some (no_video\<lparr>scale := Some \<lparr>width = Some (Integer 1280), height = None\<rparr>\<rparr>)\<rparr>"
        "no_video\<lparr>scale := Some \<lparr>width = Some (Integer 1280), height = None\<rparr>\<rparr>"
        "\<lparr>width = Some (Integer 1280), height = None\<rparr>" "''input-0.mp4''"
        "''output-0.mp4''" "resolve_output None"
        "[''-i'', ''input-0.mp4'', ''-c:v'', ''libx264'', ''-vf'', ''scale=1280:-2'', ''-c:a'', ''copy'',
          ''-movflags'', ''+faststart'', ''-y'', ''output-0.mp4'']"]
    by simp
qed

section \<open>Properties of the instance\<close>

subsection \<open>init and the cleanup\<close>

lemma init_created:
  "ffmpeg c = Some e \<Longrightarrow> init cfg E c = (Returned, c)"
  by (simp add: init_def)

lemma init_fresh:
  "ffmpeg c = None \<Longrightarrow> loadingPromise c = None \<Longrightarrow>
   init cfg E c =
     (Awaiting (fst (ffmpeg_load E (created cfg E))),
      c\<lparr>ffmpeg := Some (snd (ffmpeg_load E (created cfg E))),
        loadingPromise := Some (fst (ffmpeg_load E (created cfg E))),
        calls := calls c @ [CFactory (ffmpegOptions cfg), COn ''log'', COn ''progress'', CLoad]\<rparr>)"
  by (simp add: init_def created_def Let_def split: prod.splits)

lemma cleanup_path_fields [simp]:
  "isRunningJob (cleanup_path E p c) = isRunningJob c"
  "activeJobHooks (cleanup_path E p c) = activeJobHooks c"
  "loadingPromise (cleanup_path E p c) = loadingPromise c"
  by (simp_all add: cleanup_path_def split: option.splits prod.splits sum.splits)

lemma cleanup_path_engine:
  "(ffmpeg (cleanup_path E p c) = None) = (ffmpeg c = None)"
  by (simp add: cleanup_path_def split: option.splits prod.splits sum.splits)

lemma cleanup_path_calls:
  "ffmpeg c \<noteq> None \<Longrightarrow>
   calls (cleanup_path E p c) = calls c @ [CFS Stat p] \<or>
   calls (cleanup_path E p c) = calls c @ [CFS Stat p, CFS Unlink p]"
  by (auto simp add: cleanup_path_def split: option.splits prod.splits sum.splits)

lemma cleanup_path_calls_null:
  "ffmpeg c = None \<Longrightarrow> cleanup_path E p c = c"
  by (simp add: cleanup_path_def)

lemma cleanup_path_lawful:
  assumes "lawful_fs E files" "ffmpeg c = Some e"
  shows "\<exists>e'. ffmpeg (cleanup_path E p c) = Some e' \<and> files e' = files e - {p}"
proof -
  from assms(1) have st: "files (snd (ffmpeg_FS E Stat p e)) = files e"
    and tr: "p \<in> files e \<Longrightarrow> fst (ffmpeg_FS E Stat p e) = Inr True"
    and un: "\<And>x. files (snd (ffmpeg_FS E Unlink p x)) = files x - {p}"
    by (simp_all add: lawful_fs_def)
  obtain r e1 where s: "ffmpeg_FS E Stat p e = (r, e1)" by (cases "ffmpeg_FS E Stat p e")
  with st tr have e1: "files e1 = files e" and r: "p \<in> files e \<Longrightarrow> r = Inr True" by simp_all
  show ?thesis
  proof (cases r)
    case (Inl x)
    with r have "p \<notin> files e" by auto
    with Inl s e1 assms(2) show ?thesis by (simp add: cleanup_path_def)
  next
    case (Inr b)
    show ?thesis
    proof (cases b)
      case True
      with Inr s e1 assms(2) un[of e1] show ?thesis by (simp add: cleanup_path_def)
    next
      case False
      with Inr r have "p \<notin> files e" by auto
      with False Inr s e1 assms(2) show ?thesis by (simp add: cleanup_path_def)
    qed
  qed
qed

lemma finally_block_fields [simp]:
  "isRunningJob (finally_block E job c) = False"
  "activeJobHooks (finally_block E job c) = no_hooks"
  "loadingPromise (finally_block E job c) = loadingPromise c"
  by (simp_all add: finally_block_def cleanupFiles_def)

lemma finally_block_engine:
  "(ffmpeg (finally_block E job c) = None) = (ffmpeg c = None)"
  by (simp add: finally_block_def cleanupFiles_def cleanup_path_engine)

lemma finally_block_calls:
  assumes "ffmpeg c \<noteq> None"
  shows "\<exists>a b. calls (finally_block E job c) =
           calls c @ CFS Stat (job_inputName job) # a @ CFS Stat (job_outputName job) # b \<and>
         set a \<subseteq> {CFS Unlink (job_inputName job)} \<and> set b \<subseteq> {CFS Unlink (job_outputName job)}"
proof -
  let ?c0 = "c\<lparr>isRunningJob := False, activeJobHooks := no_hooks\<rparr>"
  let ?c1 = "cleanup_path E (job_inputName job) ?c0"
  from assms have n0: "ffmpeg ?c0 \<noteq> None" by simp
  then have n1: "ffmpeg ?c1 \<noteq> None" by (simp add: cleanup_path_engine)
  from cleanup_path_calls[OF n0, of E "job_inputName job"]
  obtain a where a: "calls ?c1 = calls c @ CFS Stat (job_inputName job) # a"
    "set a \<subseteq> {CFS Unlink (job_inputName job)}"
    by auto
  from cleanup_path_calls[OF n1, of E "job_outputName job"]
  obtain b where b: "calls (cleanup_path E (job_outputName job) ?c1) =
      calls ?c1 @ CFS Stat (job_outputName job) # b"
    "set b \<subseteq> {CFS Unlink (job_outputName job)}"
    by auto
  from a b show ?thesis
    by (auto simp: finally_block_def cleanupFiles_def)
qed

lemma finally_block_lawful:
  assumes "lawful_fs E files" "ffmpeg c = Some e"
  shows "\<exists>e'. ffmpeg (finally_block E job c) = Some e' \<and>
           files e' = files e - {job_inputName job, job_outputName job}"
proof -
  let ?c0 = "c\<lparr>isRunningJob := False, activeJobHooks := no_hooks\<rparr>"
  from assms(2) have "ffmpeg ?c0 = Some e" by simp
  from cleanup_path_lawful[OF assms(1) this, of "job_inputName job"]
  obtain e1 where e1: "ffmpeg (cleanup_path E (job_inputName job) ?c0) = Some e1"
    "files e1 = files e - {job_inputName job}" by blast
  from cleanup_path_lawful[OF assms(1) e1(1), of "job_outputName job"]
  obtain e2 where e2: "ffmpeg (cleanup_path E (job_outputName job)
      (cleanup_path E (job_inputName job) ?c0)) = Some e2"
    "files e2 = files e1 - {job_outputName job}" by blast
  with e1 show ?thesis by (auto simp: finally_block_def cleanupFiles_def)
qed

subsection \<open>The try block\<close>

lemma try_exit_state:
  assumes "in_try t = Some job" "resume cfg E now t c = (Settled r, c')"
  shows "c' = finally_block E job c"
  using assms
  by (cases t) (auto split: sum.splits option.splits prod.splits)

lemma try_block_settles:
  assumes "in_try t = Some job"
  shows "(\<exists>r. fst (resume cfg E now t c) = Settled r) \<or>
         (in_try (fst (resume cfg E now t c)) = Some job \<and>
          (\<exists>r. fst (resume cfg E now' (fst (resume cfg E now t c)) (snd (resume cfg E now t c))) = Settled r))"
  using assms
  by (cases t) (auto split: sum.splits option.splits prod.splits)

text \<open>
  Claim C1, amended. For every \<^verbatim>\<open>compress\<close> call that has entered the \<^verbatim>\<open>try\<close> block
  (it is suspended at \<^verbatim>\<open>exec\<close> or at \<^verbatim>\<open>readFile\<close>), on every path on which it settles,
  success or failure: the busy flag is false, the active hooks are cleared, and the
  cleanup has run \<^verbatim>\<open>stat\<close> on the input name and then on the output name, each followed
  at most by an \<^verbatim>\<open>unlink\<close> of that name; if the engine's \<^verbatim>\<open>FS\<close> behaves as a file system,
  both entries are absent afterwards. Lemma \<open>try_block_settles\<close> shows that such a
  call settles within two resumptions.
\<close>

theorem try_exit_cleanup:
  assumes "in_try t = Some job" "resume cfg E now t c = (Settled r, c')"
  shows "\<not> isRunningJob c' \<and> activeJobHooks c' = no_hooks \<and>
     (ffmpeg c \<noteq> None \<longrightarrow>
        (\<exists>a b. calls c' =
             calls c @ CFS Stat (job_inputName job) # a @ CFS Stat (job_outputName job) # b \<and>
           set a \<subseteq> {CFS Unlink (job_inputName job)} \<and>
           set b \<subseteq> {CFS Unlink (job_outputName job)})) \<and>
     (lawful_fs E files \<and> ffmpeg c = Some e \<longrightarrow>
        (\<exists>e'. ffmpeg c' = Some e' \<and>
           job_inputName job \<notin> files e' \<and> job_outputName job \<notin> files e'))"
proof -
  from try_exit_state[OF assms] have c': "c' = finally_block E job c" .
  have 1: "\<not> isRunningJob c' \<and> activeJobHooks c' = no_hooks" by (simp add: c')
  have 2: "ffmpeg c \<noteq> None \<longrightarrow>
        (\<exists>a b. calls c' =
             calls c @ CFS Stat (job_inputName job) # a @ CFS Stat (job_outputName job) # b \<and>
           set a \<subseteq> {CFS Unlink (job_inputName job)} \<and>
           set b \<subseteq> {CFS Unlink (job_outputName job)})"
    unfolding c' using finally_block_calls[of c E job] by blast
  have 3: "lawful_fs E files \<and> ffmpeg c = Some e \<longrightarrow>
        (\<exists>e'. ffmpeg c' = Some e' \<and>
           job_inputName job \<notin> files e' \<and> job_outputName job \<notin> files e')"
  proof
    assume h: "lawful_fs E files \<and> ffmpeg c = Some e"
    then obtain e' where "ffmpeg (finally_block E job c) = Some e'"
      "files e' = files e - {job_inputName job, job_outputName job}"
      using finally_block_lawful[of E files c e job] by blast
    then show "\<exists>e'. ffmpeg c' = Some e' \<and>
           job_inputName job \<notin> files e' \<and> job_outputName job \<notin> files e'"
      unfolding c' by auto
  qed
  from 1 2 3 show ?thesis by blast
qed

lemma MemFFmpeg_lawful: "lawful_fs MemFFmpeg (\<lambda>e. dom (writtenFiles e))"
  by (auto simp: lawful_fs_def MemFFmpeg_def StubFFmpeg_def split: option.splits)

theorem try_exit_cleanup_witness:
  "lawful_fs MemFFmpeg (\<lambda>e. dom (writtenFiles e)) \<and>
   in_try (AwaitRead running_job (Inl (External ''read failed''))) = Some running_job \<and>
   fst (resume testConfig MemFFmpeg (0, 0) (AwaitRead running_job (Inl (External ''read failed'')))
          running_instance) = Settled (Inl (External ''read failed'')) \<and>
   \<not> isRunningJob (finally_block MemFFmpeg running_job running_instance) \<and>
   activeJobHooks (finally_block MemFFmpeg running_job running_instance) = no_hooks \<and>
   (\<exists>e'. ffmpeg (finally_block MemFFmpeg running_job running_instance) = Some e' \<and>
      ''input-0.mp4'' \<notin> dom (writtenFiles e') \<and> ''output-0.mp4'' \<notin> dom (writtenFiles e'))"
proof -
  have h1: "in_try (AwaitRead running_job (Inl (External ''read failed''))) = Some running_job"
    by simp
  have h2: "resume testConfig MemFFmpeg (0, 0) (AwaitRead running_job (Inl (External ''read failed'')))
      running_instance =
      (Settled (Inl (External ''read failed'')), finally_block MemFFmpeg running_job running_instance)"
    by simp
  have e: "ffmpeg running_instance = Some running_engine"
    by (simp add: running_instance_def)
  have n: "job_inputName running_job = ''input-0.mp4''" "job_outputName running_job = ''output-0.mp4''"
    by (simp_all add: running_job_def)
  show ?thesis
    using MemFFmpeg_lawful e n
      try_exit_cleanup [OF h1 h2, of "\<lambda>e. dom (writtenFiles e)" running_engine]
    by (simp add: h2)
qed

text \<open>
  An exit before the \<^verbatim>\<open>try\<close> block runs no cleanup: a call rejected by
  \<^verbatim>\<open>#buildArgs\<close> leaves the hooks it had installed.
\<close>

lemma rejected_before_try_keeps_hooks:
  "tasks (run testConfig StubFFmpeg
      [CallCompress 1 (Some videoFile) (Some (conflicting_options\<lparr>job_onLog := Some 7\<rparr>)),
       Resume 1 (0, 0)] initial) 1 = Some (Settled (Inl CrfAndBitrate)) \<and>
   activeJobHooks (vc (run testConfig StubFFmpeg
      [CallCompress 1 (Some videoFile) (Some (conflicting_options\<lparr>job_onLog := Some 7\<rparr>)),
       Resume 1 (0, 0)] initial)) = \<lparr>onLog = Some 7, onProgress = None\<rparr>"
  by code_simp

text \<open>
  The claim as stated fails on the exit through the busy check, which comes after the
  file and mode validation: a call made while a job is executing is rejected and leaves
  the busy flag set.
\<close>

theorem busy_rejection_counterexample:
  "tasks (run testConfig StubFFmpeg
      [CallCompress 1 (Some videoFile) (Some (no_options\<lparr>mode := Some COPY\<rparr>)),
       Resume 1 (0, 0), Resume 1 (0, 0), Resume 1 (0, 0),
       CallCompress 2 (Some videoFile) (Some (no_options\<lparr>mode := Some COPY\<rparr>))] initial) 2 =
     Some (Settled (Inl JobRunning)) \<and>
   isRunningJob (vc (run testConfig StubFFmpeg
      [CallCompress 1 (Some videoFile) (Some (no_options\<lparr>mode := Some COPY\<rparr>)),
       Resume 1 (0, 0), Resume 1 (0, 0), Resume 1 (0, 0),
       CallCompress 2 (Some videoFile) (Some (no_options\<lparr>mode := Some COPY\<rparr>))] initial))"
  by code_simp

subsection \<open>The segments of a call\<close>

lemma init_job_calls:
  "filter job_call (calls (snd (init cfg E c))) = filter job_call (calls c)"
  by (simp add: init_def Let_def split: option.splits prod.splits)

lemma modes_truthy [simp]:
  "truthy_str (Some REENCODE)" "truthy_str (Some COPY)" "truthy_str (Some COPY_MUTE)"
  by (simp_all add: truthy_str_def REENCODE_def COPY_def COPY_MUTE_def)

lemma compress_start_busy:
  "truthy_str (mode opts) \<Longrightarrow> isRunningJob c \<Longrightarrow>
   compress_start cfg E (Some f) (Some opts) c = (Settled (Inl JobRunning), c)"
  by (simp add: compress_start_def)

lemma compress_start_idle:
  "truthy_str (mode opts) \<Longrightarrow> \<not> isRunningJob c \<Longrightarrow>
   compress_start cfg E (Some f) (Some opts) c =
     (AwaitInit f opts (case fst (init cfg E c) of Returned \<Rightarrow> Inr () | Awaiting p \<Rightarrow> p),
      snd (init cfg E c))"
  by (simp add: compress_start_def split: prod.splits init_state.splits)

lemma compress_start_created:
  "truthy_str (mode opts) \<Longrightarrow> \<not> isRunningJob c \<Longrightarrow> ffmpeg c = Some e0 \<Longrightarrow>
   compress_start cfg E (Some f) (Some opts) c = (AwaitInit f opts (Inr ()), c)"
  by (simp add: compress_start_idle init_created)

lemma compress_start_fresh:
  "truthy_str (mode opts) \<Longrightarrow> \<not> isRunningJob c \<Longrightarrow> ffmpeg c = None \<Longrightarrow> loadingPromise c = None \<Longrightarrow>
   compress_start cfg E (Some f) (Some opts) c =
     (AwaitInit f opts (fst (ffmpeg_load E (created cfg E))),
      c\<lparr>ffmpeg := Some (snd (ffmpeg_load E (created cfg E))),
        loadingPromise := Some (fst (ffmpeg_load E (created cfg E))),
        calls := calls c @ [CFactory (ffmpegOptions cfg), COn ''log'', COn ''progress'', CLoad]\<rparr>)"
  by (simp add: compress_start_idle init_fresh)

text \<open>The segments of a call whose awaited promise is fulfilled, on an instance that holds an engine.\<close>

lemma resume_init_fulfilled:
  assumes "buildArgs (inputName_of now f) (outputName_of now (resolve_output (job_output opts))) opts
      (resolve_output (job_output opts)) = Inr args" "ffmpeg c = Some e0"
  shows "resume cfg E now (AwaitInit f opts (Inr ())) c =
     (AwaitFetch
        \<lparr>job_inputName = inputName_of now f,
         job_outputName = outputName_of now (resolve_output (job_output opts)),
         job_args = args, job_mimeType = out_mimeType (resolve_output (job_output opts))\<rparr>
        (fileFetcher cfg f),
      c\<lparr>activeJobHooks :=
           \<lparr>onLog = or_else (job_onLog opts) (cfg_onLog cfg),
            onProgress = or_else (job_onProgress opts) (cfg_onProgress cfg)\<rparr>,
        calls := calls c @ [CFetch f]\<rparr>)"
  using assms by (simp add: Let_def)

lemma resume_init_thrown:
  assumes "buildArgs (inputName_of now f) (outputName_of now (resolve_output (job_output opts))) opts
      (resolve_output (job_output opts)) = Inl e"
  shows "resume cfg E now (AwaitInit f opts (Inr ())) c =
     (Settled (Inl e),
      c\<lparr>activeJobHooks :=
           \<lparr>onLog = or_else (job_onLog opts) (cfg_onLog cfg),
            onProgress = or_else (job_onProgress opts) (cfg_onProgress cfg)\<rparr>\<rparr>)"
  using assms by (simp add: Let_def)

lemma resume_fetch_fulfilled:
  assumes "ffmpeg c = Some e0"
  shows "resume cfg E now (AwaitFetch job (Inr data)) c =
     (AwaitWrite job (fst (ffmpeg_writeFile E (job_inputName job) data e0)),
      c\<lparr>ffmpeg := Some (snd (ffmpeg_writeFile E (job_inputName job) data e0)),
        calls := calls c @ [CWriteFile (job_inputName job) data]\<rparr>)"
  using assms by (simp add: Let_def split: prod.splits)

lemma resume_write_fulfilled:
  assumes "ffmpeg c = Some e0"
  shows "resume cfg E now (AwaitWrite job (Inr ())) c =
     (AwaitExec job (fst (ffmpeg_exec E (job_args job) e0)),
      c\<lparr>isRunningJob := True, ffmpeg := Some (snd (ffmpeg_exec E (job_args job) e0)),
        calls := calls c @ [CExec (job_args job)]\<rparr>)"
  using assms by (simp add: Let_def split: prod.splits)

lemma resume_exec_fulfilled:
  assumes "ffmpeg c = Some e0"
  shows "resume cfg E now (AwaitExec job (Inr ())) c =
     (AwaitRead job (fst (ffmpeg_readFile E (job_outputName job) e0)),
      c\<lparr>ffmpeg := Some (snd (ffmpeg_readFile E (job_outputName job) e0)),
        calls := calls c @ [CReadFile (job_outputName job)]\<rparr>)"
  using assms by (simp add: Let_def split: prod.splits)

lemma resumed_0 [simp]: "resumed cfg E now 0 x = x"
  by (simp add: resumed_def)

lemma resumed_Suc:
  "resumed cfg E now (Suc k) (t, c) = resumed cfg E now k (resume cfg E now t c)"
  by (simp add: resumed_def funpow_swap1)

lemma resumed_Settled [simp]: "resumed cfg E now k (Settled r, c) = (Settled r, c)"
  by (induction k) (simp_all add: resumed_Suc)

lemma resumed_numeral:
  "resumed cfg E now (numeral n) (t, c) = resumed cfg E now (pred_numeral n) (resume cfg E now t c)"
  by (simp add: numeral_eq_Suc resumed_Suc)

text \<open>A call made and resumed with no other event in between, in terms of \<open>run\<close>.\<close>

lemma run_alone:
  assumes "tasks s t = None"
  shows "run cfg E (CallCompress t file options # replicate k (Resume t now)) s =
     s\<lparr>vc := snd (resumed cfg E now k (compress_start cfg E file options (vc s))),
       tasks := (tasks s)(t \<mapsto> fst (resumed cfg E now k (compress_start cfg E file options (vc s))))\<rparr>"
proof (induction k)
  case 0
  from assms have "step cfg E (CallCompress t file options) s =
      s\<lparr>vc := snd (compress_start cfg E file options (vc s)),
        tasks := (tasks s)(t \<mapsto> fst (compress_start cfg E file options (vc s)))\<rparr>"
    by (simp add: case_prod_beta)
  then show ?case by (simp add: run_def fun_upd_def)
next
  case (Suc k)
  let ?r = "resumed cfg E now k (compress_start cfg E file options (vc s))"
  have r: "replicate (Suc k) (Resume t now) = replicate k (Resume t now) @ [Resume t now]"
    by (simp add: replicate_append_same)
  have n: "resumed cfg E now (Suc k) (compress_start cfg E file options (vc s)) =
      resume cfg E now (fst ?r) (snd ?r)"
    by (simp add: resumed_def case_prod_beta)
  have "run cfg E (CallCompress t file options # replicate (Suc k) (Resume t now)) s =
      step cfg E (Resume t now) (run cfg E (CallCompress t file options # replicate k (Resume t now)) s)"
    unfolding r run_def by simp
  also have "\<dots> = step cfg E (Resume t now) (s\<lparr>vc := snd ?r, tasks := (tasks s)(t \<mapsto> fst ?r)\<rparr>)"
    using Suc by (simp add: fun_upd_def)
  also have "\<dots> = s\<lparr>vc := snd (resume cfg E now (fst ?r) (snd ?r)),
      tasks := (tasks s)(t \<mapsto> fst (resume cfg E now (fst ?r) (snd ?r)))\<rparr>"
    by (simp add: case_prod_beta)
  finally show ?case by (simp add: n fun_upd_def)
qed

lemma resumed_1: "resumed cfg E now 1 (t, c) = resume cfg E now t c"
  by (simp add: resumed_def)

lemma resumed_after_init:
  assumes "ffmpeg c = Some e0"
  shows "fst (resumed cfg E now 5 (AwaitInit f opts (Inr ()), c)) =
     Settled (propagated cfg E now f opts e0)"
proof -
  let ?out = "resolve_output (job_output opts)"
  let ?c1 = "c\<lparr>activeJobHooks :=
           \<lparr>onLog = or_else (job_onLog opts) (cfg_onLog cfg),
            onProgress = or_else (job_onProgress opts) (cfg_onProgress cfg)\<rparr>\<rparr>"
  show ?thesis
  proof (cases "buildArgs (inputName_of now f) (outputName_of now ?out) opts ?out")
    case (Inl e)
    then show ?thesis
      by (simp add: resumed_numeral resume_init_thrown propagated_def Let_def del: resume.simps)
  next
    case (Inr args)
    note b = this
    let ?job = "\<lparr>job_inputName = inputName_of now f, job_outputName = outputName_of now ?out,
         job_args = args, job_mimeType = out_mimeType ?out\<rparr>"
    have 1: "resumed cfg E now 5 (AwaitInit f opts (Inr ()), c) =
        resumed cfg E now 4 (AwaitFetch ?job (fileFetcher cfg f), ?c1\<lparr>calls := calls c @ [CFetch f]\<rparr>)"
      using resume_init_fulfilled[OF b assms, of cfg E]
      by (simp add: resumed_numeral del: resume.simps)
    show ?thesis
    proof (cases "fileFetcher cfg f")
      case (Inl e)
      then show ?thesis unfolding 1 by (simp add: b resumed_numeral propagated_def Let_def)
    next
      case (Inr data)
      note d = this
      obtain p1 e1 where w: "ffmpeg_writeFile E (inputName_of now f) data e0 = (p1, e1)"
        by (cases "ffmpeg_writeFile E (inputName_of now f) data e0")
      show ?thesis
      proof (cases p1)
        case (Inl e)
        with w show ?thesis
          using assms unfolding 1 by (simp add: b d resumed_numeral propagated_def Let_def)
      next
        case (Inr u)
        note pw = this
        obtain p2 e2 where x: "ffmpeg_exec E args e1 = (p2, e2)"
          by (cases "ffmpeg_exec E args e1")
        show ?thesis
        proof (cases p2)
          case (Inl e)
          with w pw x show ?thesis
            using assms unfolding 1 by (simp add: b d resumed_numeral propagated_def Let_def)
        next
          case (Inr u')
          note px = this
          obtain p3 e3 where rd: "ffmpeg_readFile E (outputName_of now ?out) e2 = (p3, e3)"
            by (cases "ffmpeg_readFile E (outputName_of now ?out) e2")
          with w pw x px show ?thesis
            using assms unfolding 1
            by (cases p3) (simp_all add: b d resumed_numeral resumed_Suc propagated_def Let_def)
        qed
      qed
    qed
  qed
qed

lemma compress_alone_created:
  assumes "truthy_str (mode opts)" "\<not> isRunningJob c" "ffmpeg c = Some e0"
  shows "fst (resumed cfg E now 5 (compress_start cfg E (Some f) (Some opts) c)) =
     Settled (propagated cfg E now f opts e0)"
  using assms by (simp add: compress_start_created resumed_after_init)

lemma compress_alone_fresh:
  assumes "truthy_str (mode opts)" "\<not> isRunningJob c" "ffmpeg c = None" "loadingPromise c = None"
  shows "fst (resumed cfg E now 5 (compress_start cfg E (Some f) (Some opts) c)) =
     Settled (case ffmpeg_load E (created cfg E) of
                (Inl e, _) \<Rightarrow> Inl e
              | (Inr _, e0) \<Rightarrow> propagated cfg E now f opts e0)"
proof -
  obtain p e0 where l: "ffmpeg_load E (created cfg E) = (p, e0)"
    by (cases "ffmpeg_load E (created cfg E)")
  show ?thesis
  proof (cases p)
    case (Inl e)
    with l assms show ?thesis
      by (simp add: compress_start_fresh resumed_numeral)
  next
    case (Inr u)
    with l assms show ?thesis
      by (simp add: compress_start_fresh resumed_after_init del: resume.simps)
  qed
qed

lemma propagated_FS:
  "propagated cfg (E\<lparr>ffmpeg_FS := g\<rparr>) now f opts e0 = propagated cfg E now f opts e0"
  by (simp add: propagated_def Let_def cong: sum.case_cong prod.case_cong)

lemma created_FS: "created cfg (E\<lparr>ffmpeg_FS := g\<rparr>) = created cfg E"
  by (simp add: created_def)

lemma resumed_to_write:
  assumes "buildArgs (inputName_of now f) (outputName_of now (resolve_output (job_output opts))) opts
      (resolve_output (job_output opts)) = Inr args" "ffmpeg c = Some e0" "fileFetcher cfg f = Inr data"
  shows "resumed cfg E now 2 (AwaitInit f opts (Inr ()), c) =
     (AwaitWrite
        \<lparr>job_inputName = inputName_of now f,
         job_outputName = outputName_of now (resolve_output (job_output opts)),
         job_args = args, job_mimeType = out_mimeType (resolve_output (job_output opts))\<rparr>
        (fst (ffmpeg_writeFile E (inputName_of now f) data e0)),
      c\<lparr>activeJobHooks :=
           \<lparr>onLog = or_else (job_onLog opts) (cfg_onLog cfg),
            onProgress = or_else (job_onProgress opts) (cfg_onProgress cfg)\<rparr>,
        ffmpeg := Some (snd (ffmpeg_writeFile E (inputName_of now f) data e0)),
        calls := calls c @ [CFetch f, CWriteFile (inputName_of now f) data]\<rparr>)"
  using assms by (simp add: resumed_numeral resumed_Suc Let_def split: prod.splits)

lemma resumed_to_exec:
  assumes "buildArgs (inputName_of now f) (outputName_of now (resolve_output (job_output opts))) opts
      (resolve_output (job_output opts)) = Inr args" "ffmpeg c = Some e0" "fileFetcher cfg f = Inr data"
    "ffmpeg_writeFile E (inputName_of now f) data e0 = (Inr (), e1)"
  shows "resumed cfg E now 3 (AwaitInit f opts (Inr ()), c) =
     (AwaitExec
        \<lparr>job_inputName = inputName_of now f,
         job_outputName = outputName_of now (resolve_output (job_output opts)),
         job_args = args, job_mimeType = out_mimeType (resolve_output (job_output opts))\<rparr>
        (fst (ffmpeg_exec E args e1)),
      c\<lparr>activeJobHooks :=
           \<lparr>onLog = or_else (job_onLog opts) (cfg_onLog cfg),
            onProgress = or_else (job_onProgress opts) (cfg_onProgress cfg)\<rparr>,
        isRunningJob := True,
        ffmpeg := Some (snd (ffmpeg_exec E args e1)),
        calls := calls c @ [CFetch f, CWriteFile (inputName_of now f) data, CExec args]\<rparr>)"
  using assms by (simp add: resumed_numeral resumed_Suc Let_def split: prod.splits)

lemma run_Nil [simp]: "run cfg E [] s = s"
  by (simp add: run_def)

subsection \<open>Outcomes\<close>

text \<open>
  Claim C7. A \<^verbatim>\<open>compress\<close> call rejected by the validation changes nothing. A call past
  the validation, resumed to its end with no other call in between, settles with
  \<open>propagated\<close>: on an instance that holds an engine, the error of \<^verbatim>\<open>#buildArgs\<close>, else
  the rejection of the fetcher, else that of \<^verbatim>\<open>writeFile\<close> invoked with the input name and
  the bytes fetched, else that of \<^verbatim>\<open>exec\<close> invoked with the arguments built, else that of
  \<^verbatim>\<open>readFile\<close> invoked with the output name, each unchanged and each operation invoked on
  the engine as the one before left it; else the blob of the bytes read, of the resolved
  MIME type as the \<^verbatim>\<open>Blob\<close> constructor keeps it. On a new instance the outcome is the
  rejection of the load if it rejects, and the same from the loaded engine otherwise.
  Both hold whatever \<^verbatim>\<open>FS\<close> does, throwing included: the cleanup never changes the
  outcome. Segment by segment no other outcome exists: a blob comes only from a
  successful read, and an error is the awaited rejection or the one \<^verbatim>\<open>#buildArgs\<close> threw
  (or the \<^verbatim>\<open>TypeError\<close> of a \<^verbatim>\<open>null\<close> engine).
\<close>

theorem compress_outcomes:
  "compress_start cfg E None options c = (Settled (Inl InputNotFile), c) \<and>
   compress_start cfg E (Some f) None c = (Settled (Inl ModeRequired), c) \<and>
   (\<not> truthy_str (mode opts) \<longrightarrow>
      compress_start cfg E (Some f) (Some opts) c = (Settled (Inl ModeRequired), c)) \<and>
   (fst (compress_start cfg E file options c) = Settled r \<longrightarrow>
      r \<in> {Inl InputNotFile, Inl ModeRequired, Inl JobRunning} \<and>
      snd (compress_start cfg E file options c) = c) \<and>
   (truthy_str (mode opts) \<and> \<not> isRunningJob c \<and> ffmpeg c = Some eng \<longrightarrow>
      fst (resumed cfg E now 5 (compress_start cfg E (Some f) (Some opts) c)) =
        Settled (propagated cfg E now f opts eng) \<and>
      fst (resumed cfg (E\<lparr>ffmpeg_FS := g\<rparr>) now 5
             (compress_start cfg (E\<lparr>ffmpeg_FS := g\<rparr>) (Some f) (Some opts) c)) =
        Settled (propagated cfg E now f opts eng)) \<and>
   (truthy_str (mode opts) \<and> \<not> isRunningJob c \<and> ffmpeg c = None \<and> loadingPromise c = None \<longrightarrow>
      fst (resumed cfg E now 5 (compress_start cfg E (Some f) (Some opts) c)) =
        Settled (case ffmpeg_load E (created cfg E) of
                   (Inl e, _) \<Rightarrow> Inl e
                 | (Inr _, e0) \<Rightarrow> propagated cfg E now f opts e0) \<and>
      fst (resumed cfg (E\<lparr>ffmpeg_FS := g\<rparr>) now 5
             (compress_start cfg (E\<lparr>ffmpeg_FS := g\<rparr>) (Some f) (Some opts) c)) =
        Settled (case ffmpeg_load E (created cfg E) of
                   (Inl e, _) \<Rightarrow> Inl e
                 | (Inr _, e0) \<Rightarrow> propagated cfg E now f opts e0)) \<and>
   (tasks s t' = None \<longrightarrow>
      tasks (run cfg E (CallCompress t' file options # replicate k (Resume t' now)) s) t' =
        Some (fst (resumed cfg E now k (compress_start cfg E file options (vc s))))) \<and>
   (buildArgs (inputName_of now f) (outputName_of now (resolve_output (job_output opts))) opts
        (resolve_output (job_output opts)) = Inl e \<longrightarrow>
      fst (resume cfg E now (AwaitInit f opts (Inr ())) c) = Settled (Inl e)) \<and>
   (pending_error t = Some e \<longrightarrow> fst (resume cfg E now t c) = Settled (Inl e) \<or> t = InitPending (Inl e)) \<and>
   resume cfg E now (InitPending p) c = (InitSettled p, c) \<and>
   fst (resume cfg E now (AwaitRead job (Inr d)) c) = Settled (Inr (new_Blob d (job_mimeType job))) \<and>
   fst (resume cfg (E\<lparr>ffmpeg_FS := g\<rparr>) now t c) = fst (resume cfg E now t c) \<and>
   (fst (resume cfg E now t c) = Settled (Inr blob) \<and> t \<noteq> Settled (Inr blob) \<longrightarrow>
      (\<exists>job d. t = AwaitRead job (Inr d) \<and> blob = new_Blob d (job_mimeType job))) \<and>
   (fst (resume cfg E now t c) = Settled (Inl e) \<and> t \<noteq> Settled (Inl e) \<longrightarrow>
      pending_error t = Some e \<or>
      (\<exists>f opts. t = AwaitInit f opts (Inr ()) \<and>
         buildArgs (inputName_of now f) (outputName_of now (resolve_output (job_output opts))) opts
           (resolve_output (job_output opts)) = Inl e) \<or>
      (e = NullEngine \<and> ffmpeg c = None))"
proof -
  have 1: "compress_start cfg E None options c = (Settled (Inl InputNotFile), c)"
    by (simp add: compress_start_def)
  have 2: "compress_start cfg E (Some f) None c = (Settled (Inl ModeRequired), c)"
    by (simp add: compress_start_def)
  have 3: "\<not> truthy_str (mode opts) \<longrightarrow>
      compress_start cfg E (Some f) (Some opts) c = (Settled (Inl ModeRequired), c)"
    by (simp add: compress_start_def)
  have 0: "fst (compress_start cfg E file options c) = Settled r \<longrightarrow>
      r \<in> {Inl InputNotFile, Inl ModeRequired, Inl JobRunning} \<and>
      snd (compress_start cfg E file options c) = c"
    by (auto simp: compress_start_def split: option.splits if_splits prod.splits init_state.splits)
  have A: "truthy_str (mode opts) \<and> \<not> isRunningJob c \<and> ffmpeg c = Some eng \<longrightarrow>
      fst (resumed cfg E now 5 (compress_start cfg E (Some f) (Some opts) c)) =
        Settled (propagated cfg E now f opts eng) \<and>
      fst (resumed cfg (E\<lparr>ffmpeg_FS := g\<rparr>) now 5
             (compress_start cfg (E\<lparr>ffmpeg_FS := g\<rparr>) (Some f) (Some opts) c)) =
        Settled (propagated cfg E now f opts eng)"
    using compress_alone_created[of opts c eng cfg E now f]
      compress_alone_created[of opts c eng cfg "E\<lparr>ffmpeg_FS := g\<rparr>" now f]
    by (simp add: propagated_FS)
  have B: "truthy_str (mode opts) \<and> \<not> isRunningJob c \<and> ffmpeg c = None \<and> loadingPromise c = None \<longrightarrow>
      fst (resumed cfg E now 5 (compress_start cfg E (Some f) (Some opts) c)) =
        Settled (case ffmpeg_load E (created cfg E) of
                   (Inl e, _) \<Rightarrow> Inl e
                 | (Inr _, e0) \<Rightarrow> propagated cfg E now f opts e0) \<and>
      fst (resumed cfg (E\<lparr>ffmpeg_FS := g\<rparr>) now 5
             (compress_start cfg (E\<lparr>ffmpeg_FS := g\<rparr>) (Some f) (Some opts) c)) =
        Settled (case ffmpeg_load E (created cfg E) of
                   (Inl e, _) \<Rightarrow> Inl e
                 | (Inr _, e0) \<Rightarrow> propagated cfg E now f opts e0)"
    using compress_alone_fresh[of opts c cfg E now f]
      compress_alone_fresh[of opts c cfg "E\<lparr>ffmpeg_FS := g\<rparr>" now f]
    by (simp add: propagated_FS created_FS cong: sum.case_cong prod.case_cong)
  have C: "tasks s t' = None \<longrightarrow>
      tasks (run cfg E (CallCompress t' file options # replicate k (Resume t' now)) s) t' =
        Some (fst (resumed cfg E now k (compress_start cfg E file options (vc s))))"
    by (simp add: run_alone)
  have 4: "buildArgs (inputName_of now f) (outputName_of now (resolve_output (job_output opts))) opts
        (resolve_output (job_output opts)) = Inl e \<longrightarrow>
      fst (resume cfg E now (AwaitInit f opts (Inr ())) c) = Settled (Inl e)"
    by (simp add: Let_def)
  have 5: "pending_error t = Some e \<longrightarrow> fst (resume cfg E now t c) = Settled (Inl e) \<or> t = InitPending (Inl e)"
    by (cases t rule: pending_error.cases) (auto)
  have 6: "resume cfg E now (InitPending p) c = (InitSettled p, c)" by simp
  have 7: "fst (resume cfg E now (AwaitRead job (Inr d)) c) =
     Settled (Inr (new_Blob d (job_mimeType job)))" by simp
  have 8: "fst (resume cfg (E\<lparr>ffmpeg_FS := g\<rparr>) now t c) = fst (resume cfg E now t c)"
    by (cases t) (auto simp: Let_def split: sum.splits option.splits prod.splits)
  have 9: "fst (resume cfg E now t c) = Settled (Inr blob) \<and> t \<noteq> Settled (Inr blob) \<longrightarrow>
      (\<exists>job d. t = AwaitRead job (Inr d) \<and> blob = new_Blob d (job_mimeType job))"
    by (cases t) (auto simp: Let_def split: sum.splits option.splits prod.splits)
  have 10: "fst (resume cfg E now t c) = Settled (Inl e) \<and> t \<noteq> Settled (Inl e) \<longrightarrow>
      pending_error t = Some e \<or>
      (\<exists>f opts. t = AwaitInit f opts (Inr ()) \<and>
         buildArgs (inputName_of now f) (outputName_of now (resolve_output (job_output opts))) opts
           (resolve_output (job_output opts)) = Inl e) \<or>
      (e = NullEngine \<and> ffmpeg c = None)"
    by (cases t) (auto simp: Let_def split: sum.splits option.splits prod.splits)
  from 0 1 2 3 A B C 4 5 6 7 8 9 10 show ?thesis by blast
qed

text \<open>
  A whole call in mode copy, resumed to its end on the double with a file system: it
  settles with the blob of the bytes read, the instance is idle again, and both virtual
  files are gone.
\<close>

lemma compress_copy_run:
  "tasks (run testConfig MemFFmpeg
      [CallCompress 1 (Some videoFile) (Some (no_options\<lparr>mode := Some COPY\<rparr>)),
       Resume 1 (0, 0), Resume 1 (0, 0), Resume 1 (0, 0), Resume 1 (0, 0), Resume 1 (0, 0)] initial) 1 =
     Some (Settled (Inr \<lparr>blob_data = [1, 2, 3], blob_type = ''video/mp4''\<rparr>)) \<and>
   \<not> isRunningJob (vc (run testConfig MemFFmpeg
      [CallCompress 1 (Some videoFile) (Some (no_options\<lparr>mode := Some COPY\<rparr>)),
       Resume 1 (0, 0), Resume 1 (0, 0), Resume 1 (0, 0), Resume 1 (0, 0), Resume 1 (0, 0)] initial)) \<and>
   map_option (\<lambda>e. (writtenFiles e ''input-0.mp4'', writtenFiles e ''output-0.mp4''))
     (ffmpeg (vc (run testConfig MemFFmpeg
      [CallCompress 1 (Some videoFile) (Some (no_options\<lparr>mode := Some COPY\<rparr>)),
       Resume 1 (0, 0), Resume 1 (0, 0), Resume 1 (0, 0), Resume 1 (0, 0), Resume 1 (0, 0)] initial))) =
     Some (None, None) \<and>
   calls (vc (run testConfig MemFFmpeg
      [CallCompress 1 (Some videoFile) (Some (no_options\<lparr>mode := Some COPY\<rparr>)),
       Resume 1 (0, 0), Resume 1 (0, 0), Resume 1 (0, 0), Resume 1 (0, 0), Resume 1 (0, 0)] initial)) =
     [CFactory \<lparr>opt_log = True, opt_corePath = None\<rparr>, COn ''log'', COn ''progress'', CLoad,
      CFetch videoFile, CWriteFile ''input-0.mp4'' [0],
      CExec [''-i'', ''input-0.mp4'', ''-c:v'', ''copy'', ''-c:a'', ''copy'', ''-movflags'',
             ''+faststart'', ''-y'', ''output-0.mp4''],
      CReadFile ''output-0.mp4'',
      CFS Stat ''input-0.mp4'', CFS Unlink ''input-0.mp4'',
      CFS Stat ''output-0.mp4'', CFS Unlink ''output-0.mp4'']"
  by code_simp

theorem compress_outcomes_witness:
  "fst (resumed testConfig MemFFmpeg (0, 0) 5
         (compress_start testConfig MemFFmpeg (Some videoFile) (Some (no_options\<lparr>mode := Some COPY\<rparr>))
            new_VideoCompressor)) =
     Settled (Inr \<lparr>blob_data = [1, 2, 3], blob_type = ''video/mp4''\<rparr>) \<and>
   fst (resumed testConfig
          (StubFFmpeg\<lparr>ffmpeg_exec := (\<lambda>args e. (Inl (External ''exec failed''), e)),
                      ffmpeg_FS := (\<lambda>op p e. (Inl (External ''EIO''), e))\<rparr>) (0, 0) 5
         (compress_start testConfig
            (StubFFmpeg\<lparr>ffmpeg_exec := (\<lambda>args e. (Inl (External ''exec failed''), e)),
                        ffmpeg_FS := (\<lambda>op p e. (Inl (External ''EIO''), e))\<rparr>)
            (Some videoFile) (Some (no_options\<lparr>mode := Some COPY\<rparr>))
            (running_instance\<lparr>isRunningJob := False\<rparr>))) =
     Settled (Inl (External ''exec failed'')) \<and>
   fst (resume testConfig StubFFmpeg (0, 0) (AwaitInit videoFile conflicting_options (Inr ()))
          running_instance) = Settled (Inl CrfAndBitrate)"
proof -
  let ?copy = "no_options\<lparr>mode := Some COPY\<rparr>"
  let ?X = "StubFFmpeg\<lparr>ffmpeg_exec := (\<lambda>args e. (Inl (External ''exec failed''), e))\<rparr>"
  have m: "truthy_str (mode ?copy)" by simp
  have n: "\<not> isRunningJob (new_VideoCompressor :: Stub VideoCompressor)"
    "ffmpeg (new_VideoCompressor :: Stub VideoCompressor) = None"
    "loadingPromise (new_VideoCompressor :: Stub VideoCompressor) = None"
    by (simp_all add: new_VideoCompressor_def)
  have i: "\<not> isRunningJob (running_instance\<lparr>isRunningJob := False\<rparr>)"
    "ffmpeg (running_instance\<lparr>isRunningJob := False\<rparr>) = Some running_engine"
    by (simp_all add: running_instance_def)
  have pB: "(case ffmpeg_load MemFFmpeg (created testConfig MemFFmpeg) of
        (Inl e, _) \<Rightarrow> Inl e
      | (Inr _, e0) \<Rightarrow> propagated testConfig MemFFmpeg (0, 0) videoFile ?copy e0) =
      Inr \<lparr>blob_data = [1, 2, 3], blob_type = ''video/mp4''\<rparr>"
    by code_simp
  have pA: "propagated testConfig ?X (0, 0) videoFile ?copy running_engine =
      Inl (External ''exec failed'')"
    by code_simp
  have b: "buildArgs (inputName_of (0, 0) videoFile)
      (outputName_of (0, 0) (resolve_output (job_output conflicting_options))) conflicting_options
      (resolve_output (job_output conflicting_options)) = Inl CrfAndBitrate"
    by (simp add: conflicting_options_def buildArgs_reencode applyVideoOptions_def)
  show ?thesis
    using m n i pA pB b
      compress_outcomes [where cfg = testConfig and E = MemFFmpeg and now = "(0, 0)"
        and f = videoFile and opts = ?copy and c = new_VideoCompressor]
      compress_outcomes [where cfg = testConfig and E = ?X and now = "(0, 0)"
        and f = videoFile and opts = ?copy and c = "running_instance\<lparr>isRunningJob := False\<rparr>"
        and eng = running_engine and g = "\<lambda>op p e. (Inl (External ''EIO''), e)"]
      compress_outcomes [where cfg = testConfig and E = StubFFmpeg and now = "(0, 0)"
        and f = videoFile and opts = conflicting_options and e = CrfAndBitrate
        and c = running_instance]
    by simp
qed

subsection \<open>Conflicting video options\<close>

text \<open>
  Claim C3, amended. A \<^verbatim>\<open>compress\<close> call with a file, mode reencode and both
  \<^verbatim>\<open>video.crf\<close> and \<^verbatim>\<open>video.bitrate\<close> defined is rejected with the busy error when a job is
  running. Otherwise it runs \<^verbatim>\<open>init()\<close> first and awaits what \<^verbatim>\<open>init()\<close> delivers: on an
  instance that holds an engine nothing is invoked; on a new instance the engine is created,
  the two listeners are registered and \<^verbatim>\<open>load()\<close> is invoked, and the call awaits the
  outcome of that very load. When it is resumed the call is rejected: with the load error
  when the load failed, with the configuration error otherwise, after the job hooks have been
  set. The call invokes neither the fetcher nor \<^verbatim>\<open>writeFile\<close>, \<^verbatim>\<open>exec\<close>, \<^verbatim>\<open>readFile\<close> or \<^verbatim>\<open>FS\<close>.
\<close>

theorem conflicting_options_rejected:
  assumes "mode opts = Some REENCODE" "video opts = Some v" "crf v = Some q" "vbitrate v = Some b"
  shows "(isRunningJob c \<longrightarrow>
            compress_start cfg E (Some f) (Some opts) c = (Settled (Inl JobRunning), c)) \<and>
         (\<not> isRunningJob c \<longrightarrow>
            compress_start cfg E (Some f) (Some opts) c =
              (AwaitInit f opts (case fst (init cfg E c) of Returned \<Rightarrow> Inr () | Awaiting p \<Rightarrow> p),
               snd (init cfg E c)) \<and>
            filter job_call (calls (snd (init cfg E c))) = filter job_call (calls c)) \<and>
         (\<not> isRunningJob c \<and> ffmpeg c = Some eng \<longrightarrow>
            compress_start cfg E (Some f) (Some opts) c = (AwaitInit f opts (Inr ()), c) \<and>
            resumed cfg E now 1 (compress_start cfg E (Some f) (Some opts) c) =
              (Settled (Inl CrfAndBitrate),
               c\<lparr>activeJobHooks :=
                    \<lparr>onLog = or_else (job_onLog opts) (cfg_onLog cfg),
                     onProgress = or_else (job_onProgress opts) (cfg_onProgress cfg)\<rparr>\<rparr>)) \<and>
         (\<not> isRunningJob c \<and> ffmpeg c = None \<and> loadingPromise c = None \<longrightarrow>
            compress_start cfg E (Some f) (Some opts) c =
              (AwaitInit f opts (fst (ffmpeg_load E (created cfg E))),
               c\<lparr>ffmpeg := Some (snd (ffmpeg_load E (created cfg E))),
                 loadingPromise := Some (fst (ffmpeg_load E (created cfg E))),
                 calls := calls c @ [CFactory (ffmpegOptions cfg), COn ''log'', COn ''progress'', CLoad]\<rparr>) \<and>
            fst (resumed cfg E now 1 (compress_start cfg E (Some f) (Some opts) c)) =
              Settled (case fst (ffmpeg_load E (created cfg E)) of
                         Inl e \<Rightarrow> Inl e
                       | Inr _ \<Rightarrow> Inl CrfAndBitrate) \<and>
            calls (snd (resumed cfg E now 1 (compress_start cfg E (Some f) (Some opts) c))) =
              calls c @ [CFactory (ffmpegOptions cfg), COn ''log'', COn ''progress'', CLoad]) \<and>
         resume cfg E now (AwaitInit f opts (Inr ())) c' =
           (Settled (Inl CrfAndBitrate),
            c'\<lparr>activeJobHooks :=
                 \<lparr>onLog = or_else (job_onLog opts) (cfg_onLog cfg),
                  onProgress = or_else (job_onProgress opts) (cfg_onProgress cfg)\<rparr>\<rparr>) \<and>
         resume cfg E now (AwaitInit f opts (Inl e)) c' = (Settled (Inl e), c') \<and>
         calls (snd (resume cfg E now (AwaitInit f opts p') c')) = calls c' \<and>
         ffmpeg (snd (resume cfg E now (AwaitInit f opts p') c')) = ffmpeg c'"
proof -
  let ?h = "\<lambda>c :: 'a VideoCompressor. c\<lparr>activeJobHooks :=
                    \<lparr>onLog = or_else (job_onLog opts) (cfg_onLog cfg),
                     onProgress = or_else (job_onProgress opts) (cfg_onProgress cfg)\<rparr>\<rparr>"
  from assms have m: "truthy_str (mode opts)" by simp
  from assms have b: "\<And>i out ro. buildArgs i out opts ro = Inl CrfAndBitrate"
    by (simp add: buildArgs_reencode applyVideoOptions_def)
  have r: "\<And>c'' :: 'a VideoCompressor. resume cfg E now (AwaitInit f opts (Inr ())) c'' =
      (Settled (Inl CrfAndBitrate), ?h c'')"
    by (rule resume_init_thrown) (rule b)
  have 1: "isRunningJob c \<longrightarrow>
            compress_start cfg E (Some f) (Some opts) c = (Settled (Inl JobRunning), c)"
    using m by (simp add: compress_start_busy)
  have 2: "\<not> isRunningJob c \<longrightarrow>
            compress_start cfg E (Some f) (Some opts) c =
              (AwaitInit f opts (case fst (init cfg E c) of Returned \<Rightarrow> Inr () | Awaiting p \<Rightarrow> p),
               snd (init cfg E c)) \<and>
            filter job_call (calls (snd (init cfg E c))) = filter job_call (calls c)"
    using m by (simp add: compress_start_idle init_job_calls)
  have 3: "\<not> isRunningJob c \<and> ffmpeg c = Some eng \<longrightarrow>
            compress_start cfg E (Some f) (Some opts) c = (AwaitInit f opts (Inr ()), c) \<and>
            resumed cfg E now 1 (compress_start cfg E (Some f) (Some opts) c) =
              (Settled (Inl CrfAndBitrate), ?h c)"
    using m by (simp add: compress_start_created resumed_Suc r del: resume.simps)
  have 4: "\<not> isRunningJob c \<and> ffmpeg c = None \<and> loadingPromise c = None \<longrightarrow>
            compress_start cfg E (Some f) (Some opts) c =
              (AwaitInit f opts (fst (ffmpeg_load E (created cfg E))),
               c\<lparr>ffmpeg := Some (snd (ffmpeg_load E (created cfg E))),
                 loadingPromise := Some (fst (ffmpeg_load E (created cfg E))),
                 calls := calls c @ [CFactory (ffmpegOptions cfg), COn ''log'', COn ''progress'', CLoad]\<rparr>) \<and>
            fst (resumed cfg E now 1 (compress_start cfg E (Some f) (Some opts) c)) =
              Settled (case fst (ffmpeg_load E (created cfg E)) of
                         Inl e \<Rightarrow> Inl e
                       | Inr _ \<Rightarrow> Inl CrfAndBitrate) \<and>
            calls (snd (resumed cfg E now 1 (compress_start cfg E (Some f) (Some opts) c))) =
              calls c @ [CFactory (ffmpegOptions cfg), COn ''log'', COn ''progress'', CLoad]"
  proof (cases "fst (ffmpeg_load E (created cfg E))")
    case (Inl e')
    with m show ?thesis by (simp add: compress_start_fresh resumed_Suc)
  next
    case (Inr u)
    with m show ?thesis by (simp add: compress_start_fresh resumed_Suc r del: resume.simps)
  qed
  have 5: "resume cfg E now (AwaitInit f opts (Inr ())) c' = (Settled (Inl CrfAndBitrate), ?h c')"
    by (rule r)
  have 6: "resume cfg E now (AwaitInit f opts (Inl e)) c' = (Settled (Inl e), c')"
    by simp
  have 7: "calls (snd (resume cfg E now (AwaitInit f opts p') c')) = calls c' \<and>
         ffmpeg (snd (resume cfg E now (AwaitInit f opts p') c')) = ffmpeg c'"
    by (cases p') (simp_all add: b Let_def)
  from 1 2 3 4 5 6 7 show ?thesis by blast
qed

text \<open>
  The claim as stated fails: the rejection comes after \<^verbatim>\<open>init()\<close> has created the engine
  and invoked \<^verbatim>\<open>load()\<close> on it, and when that load rejects the call is rejected with
  the load error, not with the configuration error.
\<close>

theorem conflicting_options_counterexample:
  "tasks (run testConfig StubFFmpeg
      [CallCompress 1 (Some videoFile) (Some conflicting_options), Resume 1 (0, 0)] initial) 1 =
     Some (Settled (Inl CrfAndBitrate)) \<and>
   calls (vc (run testConfig StubFFmpeg
      [CallCompress 1 (Some videoFile) (Some conflicting_options), Resume 1 (0, 0)] initial)) =
     [CFactory \<lparr>opt_log = True, opt_corePath = None\<rparr>, COn ''log'', COn ''progress'', CLoad] \<and>
   tasks (run testConfig FailingLoadFFmpeg
      [CallCompress 1 (Some videoFile) (Some conflicting_options), Resume 1 (0, 0)] initial) 1 =
     Some (Settled (Inl (External ''load failed'')))"
  by code_simp

theorem conflicting_options_rejected_witness:
  "compress_start testConfig StubFFmpeg (Some videoFile) (Some conflicting_options) running_instance =
     (Settled (Inl JobRunning), running_instance) \<and>
   fst (resumed testConfig StubFFmpeg (0, 0) 1
          (compress_start testConfig StubFFmpeg (Some videoFile) (Some conflicting_options)
             (running_instance\<lparr>isRunningJob := False\<rparr>))) = Settled (Inl CrfAndBitrate) \<and>
   fst (resumed testConfig StubFFmpeg (0, 0) 1
          (compress_start testConfig StubFFmpeg (Some videoFile) (Some conflicting_options)
             new_VideoCompressor)) = Settled (Inl CrfAndBitrate) \<and>
   fst (resumed testConfig FailingLoadFFmpeg (0, 0) 1
          (compress_start testConfig FailingLoadFFmpeg (Some videoFile) (Some conflicting_options)
             new_VideoCompressor)) = Settled (Inl (External ''load failed''))"
proof -
  have h: "mode conflicting_options = Some REENCODE"
    "video conflicting_options =
       Some \<lparr>vcodec = None, crf = Some (Integer 20), vbitrate = Some ''1M'', preset = None, scale = None\<rparr>"
    "crf \<lparr>vcodec = None, crf = Some (Integer 20), vbitrate = Some ''1M'', preset = None, scale = None\<rparr> = Some (Integer 20)"
    "vbitrate \<lparr>vcodec = None, crf = Some (Integer 20), vbitrate = Some ''1M'', preset = None, scale = None\<rparr>
       = Some ''1M''"
    by (simp_all add: conflicting_options_def)
  have r: "isRunningJob running_instance" by (simp add: running_instance_def)
  have i: "\<not> isRunningJob (running_instance\<lparr>isRunningJob := False\<rparr>)"
    "ffmpeg (running_instance\<lparr>isRunningJob := False\<rparr>) = Some running_engine"
    by (simp_all add: running_instance_def)
  have n: "\<not> isRunningJob (new_VideoCompressor :: Stub VideoCompressor)"
    "ffmpeg (new_VideoCompressor :: Stub VideoCompressor) = None"
    "loadingPromise (new_VideoCompressor :: Stub VideoCompressor) = None"
    by (simp_all add: new_VideoCompressor_def)
  have l: "fst (ffmpeg_load StubFFmpeg (created testConfig StubFFmpeg)) = Inr ()"
    "fst (ffmpeg_load FailingLoadFFmpeg (created testConfig FailingLoadFFmpeg)) =
       Inl (External ''load failed'')"
    by (simp_all add: StubFFmpeg_def FailingLoadFFmpeg_def)
  have 1: "compress_start testConfig StubFFmpeg (Some videoFile) (Some conflicting_options)
      running_instance = (Settled (Inl JobRunning), running_instance)"
    using r conflicting_options_rejected [OF h, where c = running_instance
        and cfg = testConfig and E = StubFFmpeg and f = videoFile]
    by blast
  have "resumed testConfig StubFFmpeg (0, 0) 1
          (compress_start testConfig StubFFmpeg (Some videoFile) (Some conflicting_options)
             (running_instance\<lparr>isRunningJob := False\<rparr>)) =
        (Settled (Inl CrfAndBitrate),
         running_instance\<lparr>isRunningJob := False\<rparr>\<lparr>activeJobHooks :=
            \<lparr>onLog = or_else (job_onLog conflicting_options) (cfg_onLog testConfig),
             onProgress = or_else (job_onProgress conflicting_options) (cfg_onProgress testConfig)\<rparr>\<rparr>)"
    using i conflicting_options_rejected [OF h, where c = "running_instance\<lparr>isRunningJob := False\<rparr>"
        and eng = running_engine
        and cfg = testConfig and E = StubFFmpeg and f = videoFile and now = "(0, 0)"]
    by blast
  then have 2: "fst (resumed testConfig StubFFmpeg (0, 0) 1
          (compress_start testConfig StubFFmpeg (Some videoFile) (Some conflicting_options)
             (running_instance\<lparr>isRunningJob := False\<rparr>))) = Settled (Inl CrfAndBitrate)"
    by simp
  have "fst (resumed testConfig StubFFmpeg (0, 0) 1
          (compress_start testConfig StubFFmpeg (Some videoFile) (Some conflicting_options)
             new_VideoCompressor)) =
        Settled (case fst (ffmpeg_load StubFFmpeg (created testConfig StubFFmpeg)) of
                   Inl e \<Rightarrow> Inl e
                 | Inr _ \<Rightarrow> Inl CrfAndBitrate)"
    using n conflicting_options_rejected [OF h, where c = new_VideoCompressor
        and cfg = testConfig and E = StubFFmpeg and f = videoFile and now = "(0, 0)"]
    by blast
  then have 3: "fst (resumed testConfig StubFFmpeg (0, 0) 1
          (compress_start testConfig StubFFmpeg (Some videoFile) (Some conflicting_options)
             new_VideoCompressor)) = Settled (Inl CrfAndBitrate)"
    by (simp add: l)
  have "fst (resumed testConfig FailingLoadFFmpeg (0, 0) 1
          (compress_start testConfig FailingLoadFFmpeg (Some videoFile) (Some conflicting_options)
             new_VideoCompressor)) =
        Settled (case fst (ffmpeg_load FailingLoadFFmpeg (created testConfig FailingLoadFFmpeg)) of
                   Inl e \<Rightarrow> Inl e
                 | Inr _ \<Rightarrow> Inl CrfAndBitrate)"
    using n conflicting_options_rejected [OF h, where c = new_VideoCompressor
        and cfg = testConfig and E = FailingLoadFFmpeg and f = videoFile and now = "(0, 0)"]
    by blast
  then have 4: "fst (resumed testConfig FailingLoadFFmpeg (0, 0) 1
          (compress_start testConfig FailingLoadFFmpeg (Some videoFile) (Some conflicting_options)
             new_VideoCompressor)) = Settled (Inl (External ''load failed''))"
    by (simp add: l)
  from 1 2 3 4 show ?thesis by blast
qed

subsection \<open>Creating and loading the engine\<close>

lemma loads_simps [simp]:
  "loads [] = 0"
  "loads (x # xs) = (if x = CLoad then 1 else 0) + loads xs"
  "loads (xs @ ys) = loads xs + loads ys"
  by (simp_all add: loads_def)

lemma creations_simps [simp]:
  "creations [] = 0"
  "creations (x # xs) = (case x of CFactory _ \<Rightarrow> 1 | _ \<Rightarrow> 0) + creations xs"
  "creations (xs @ ys) = creations xs + creations ys"
  by (simp_all add: creations_def split: call.splits)

lemma cleanup_path_loads [simp]:
  "loads (calls (cleanup_path E p c)) = loads (calls c)"
  "creations (calls (cleanup_path E p c)) = creations (calls c)"
  by (simp_all add: cleanup_path_def split: option.splits prod.splits sum.splits)

lemma finally_block_loads [simp]:
  "loads (calls (finally_block E job c)) = loads (calls c)"
  "creations (calls (finally_block E job c)) = creations (calls c)"
  by (simp_all add: finally_block_def cleanupFiles_def)

lemma resume_engine:
  "(ffmpeg (snd (resume cfg E now t c)) = None) = (ffmpeg c = None)"
  by (cases t) (auto simp: Let_def finally_block_engine split: sum.splits option.splits prod.splits)

lemma resume_loads:
  "loads (calls (snd (resume cfg E now t c))) = loads (calls c) \<and>
   creations (calls (snd (resume cfg E now t c))) = creations (calls c)"
  by (cases t) (auto simp: Let_def split: sum.splits option.splits prod.splits)

lemma init_counts:
  assumes "loads (calls c) \<le> (if ffmpeg c = None then 0 else 1)"
          "creations (calls c) \<le> (if ffmpeg c = None then 0 else 1)"
  shows "loads (calls (snd (init cfg E c))) \<le> (if ffmpeg (snd (init cfg E c)) = None then 0 else 1) \<and>
         creations (calls (snd (init cfg E c))) \<le> (if ffmpeg (snd (init cfg E c)) = None then 0 else 1)"
  using assms by (auto simp: init_def Let_def split: option.splits prod.splits if_splits)

lemma init_keeps_engine:
  "ffmpeg c \<noteq> None \<Longrightarrow> init cfg E c = (Returned, c)"
  by (auto simp: init_def)

lemma compress_start_state:
  "snd (compress_start cfg E file options c) = c \<or>
   snd (compress_start cfg E file options c) = snd (init cfg E c)"
  by (auto simp: compress_start_def split: option.splits prod.splits init_state.splits)

lemma counted_init: "counted c \<Longrightarrow> counted (snd (init cfg E c))"
  using init_counts[of c cfg E] by (simp add: counted_def)

lemma counted_resume: "counted c \<Longrightarrow> counted (snd (resume cfg E now t c))"
  using resume_loads[of cfg E now t c] resume_engine[of cfg E now t c]
  by (simp add: counted_def)

lemma step_vc:
  "vc (step cfg E ev s) = vc s \<or> vc (step cfg E ev s) = snd (init cfg E (vc s)) \<or>
   (\<exists>now t. vc (step cfg E ev s) = snd (resume cfg E now t (vc s)))"
proof (cases ev)
  case (CallInit t)
  then show ?thesis by (simp add: Let_def split: prod.splits)
next
  case (CallCompress t fl opts)
  then show ?thesis
    using compress_start_state[of cfg E fl opts "vc s"]
    by (auto simp: Let_def split: prod.splits)
next
  case (Resume t now)
  show ?thesis
  proof (cases "tasks s t")
    case None
    with Resume show ?thesis by simp
  next
    case (Some k)
    with Resume have "vc (step cfg E ev s) = snd (resume cfg E now k (vc s))"
      by (simp add: Let_def split: prod.splits)
    then show ?thesis by blast
  qed
qed

lemma counted_step: "counted (vc s) \<Longrightarrow> counted (vc (step cfg E ev s))"
  using step_vc[of cfg E ev s] counted_init[of "vc s" cfg E] counted_resume[of "vc s" cfg E]
  by auto

lemma counted_run: "counted (vc s) \<Longrightarrow> counted (vc (run cfg E evs s))"
  unfolding run_def
  by (induction evs arbitrary: s) (simp_all add: counted_step)

lemma engine_created_and_loaded_once:
  "creations (calls (vc (run cfg E evs initial))) \<le> 1 \<and>
   loads (calls (vc (run cfg E evs initial))) \<le> 1"
proof -
  have "counted (vc (initial :: 'a system))"
    by (simp add: counted_def initial_def new_VideoCompressor_def)
  from counted_run[OF this, of cfg E evs] show ?thesis
    by (auto simp: counted_def split: if_splits)
qed

lemma step_keeps_engine:
  assumes "ffmpeg (vc s) \<noteq> None"
  shows "ffmpeg (vc (step cfg E ev s)) \<noteq> None \<and>
         loads (calls (vc (step cfg E ev s))) = loads (calls (vc s)) \<and>
         creations (calls (vc (step cfg E ev s))) = creations (calls (vc s))"
  using step_vc[of cfg E ev s] assms init_keeps_engine[OF assms, of cfg E]
    resume_loads[of cfg E _ _ "vc s"] resume_engine[of cfg E _ _ "vc s"]
  by auto

lemma run_keeps_engine:
  assumes "ffmpeg (vc s) \<noteq> None"
  shows "ffmpeg (vc (run cfg E evs s)) \<noteq> None \<and>
         loads (calls (vc (run cfg E evs s))) = loads (calls (vc s)) \<and>
         creations (calls (vc (run cfg E evs s))) = creations (calls (vc s))"
  using assms unfolding run_def
proof (induction evs arbitrary: s)
  case Nil
  then show ?case by simp
next
  case (Cons ev evs)
  from step_keeps_engine[OF Cons.prems, of cfg E ev]
  have 1: "ffmpeg (vc (step cfg E ev s)) \<noteq> None"
    and 2: "loads (calls (vc (step cfg E ev s))) = loads (calls (vc s))"
    and 3: "creations (calls (vc (step cfg E ev s))) = creations (calls (vc s))"
    by simp_all
  from Cons.IH[OF 1] 2 3 show ?case by simp
qed

text \<open>
  Claim C6 at two \<^verbatim>\<open>init()\<close> calls made back to back on a new instance. The first
  creates the engine, invokes \<^verbatim>\<open>load()\<close> and suspends on the load promise. The second
  finds \<^verbatim>\<open>this.ffmpeg\<close> already assigned and returns at once: its promise is resolved
  while the load is outstanding, whatever the load will deliver. No second load is
  started (lemma \<open>engine_created_and_loaded_once\<close> shows that for every schedule, the
  factory and the registration of the listeners being taken to return), but the second
  caller does not wait for the first load.
\<close>

theorem second_init_returns_before_load:
  "tasks (run cfg E [CallInit 1, CallInit 2] initial) 1 =
     Some (InitPending (fst (ffmpeg_load E (created cfg E)))) \<and>
   tasks (run cfg E [CallInit 1, CallInit 2] initial) 2 = Some (InitSettled (Inr ())) \<and>
   calls (vc (run cfg E [CallInit 1, CallInit 2] initial)) =
     [CFactory (ffmpegOptions cfg), COn ''log'', COn ''progress'', CLoad]"
  by (simp add: run_def initial_def new_VideoCompressor_def init_fresh init_created Let_def
      split: prod.splits)

text \<open>
  The same for a \<^verbatim>\<open>compress\<close> call made while an \<^verbatim>\<open>init()\<close> is outstanding: it goes on
  to write its input to the engine although the load has not been delivered (here it
  will reject).
\<close>

lemma second_caller_uses_unloaded_engine:
  "tasks (run testConfig FailingLoadFFmpeg
      [CallInit 1, CallCompress 2 (Some videoFile) (Some (no_options\<lparr>mode := Some COPY\<rparr>)),
       Resume 2 (0, 0), Resume 2 (0, 0)] initial) 1 = Some (InitPending (Inl (External ''load failed''))) \<and>
   calls (vc (run testConfig FailingLoadFFmpeg
      [CallInit 1, CallCompress 2 (Some videoFile) (Some (no_options\<lparr>mode := Some COPY\<rparr>)),
       Resume 2 (0, 0), Resume 2 (0, 0)] initial)) =
     [CFactory \<lparr>opt_log = True, opt_corePath = None\<rparr>, COn ''log'', COn ''progress'', CLoad,
      CFetch videoFile, CWriteFile ''input-0.mp4'' [0]]"
  by code_simp

text \<open>
  Claim C10. On a new instance whose engine rejects the load with \<open>e\<close>: the \<^verbatim>\<open>init()\<close>
  call, and a \<^verbatim>\<open>compress\<close> call that runs it, suspend on the load and are rejected with
  \<open>e\<close>; the instance keeps the engine created; after any further calls and resumptions
  the engine is still held, \<^verbatim>\<open>init()\<close> returns at once and changes nothing, and the load has
  been invoked once only. A \<^verbatim>\<open>compress\<close> call made then on the idle instance finds its
  \<^verbatim>\<open>init()\<close> fulfilled and, resumed, goes on with the engine that never loaded: it sets the
  hooks, builds the arguments, fetches the file and invokes \<^verbatim>\<open>writeFile\<close> on that engine, and
  its outcome is the one the engine's \<^verbatim>\<open>writeFile\<close>, \<^verbatim>\<open>exec\<close> and \<^verbatim>\<open>readFile\<close> deliver.
\<close>

theorem failed_load_keeps_engine:
  assumes "ffmpeg c = None" "loadingPromise c = None"
    "ffmpeg_load E (created cfg E) = (Inl e, e1)"
  shows "init cfg E c = (Awaiting (Inl e), snd (init cfg E c)) \<and>
     resume cfg E now (InitPending (Inl e)) c' = (InitSettled (Inl e), c') \<and>
     (truthy_str (mode opts) \<and> \<not> isRunningJob c \<longrightarrow>
        compress_start cfg E (Some f) (Some opts) c = (AwaitInit f opts (Inl e), snd (init cfg E c))) \<and>
     resume cfg E now (AwaitInit f opts (Inl e)) c' = (Settled (Inl e), c') \<and>
     ffmpeg (snd (init cfg E c)) = Some e1 \<and>
     ffmpeg (vc (run cfg E evs \<lparr>vc = snd (init cfg E c), tasks = ts\<rparr>)) \<noteq> None \<and>
     init cfg E (vc (run cfg E evs \<lparr>vc = snd (init cfg E c), tasks = ts\<rparr>)) =
       (Returned, vc (run cfg E evs \<lparr>vc = snd (init cfg E c), tasks = ts\<rparr>)) \<and>
     loads (calls (vc (run cfg E evs \<lparr>vc = snd (init cfg E c), tasks = ts\<rparr>))) =
       loads (calls c) + 1 \<and>
     (truthy_str (mode opts) \<and>
      \<not> isRunningJob (vc (run cfg E evs \<lparr>vc = snd (init cfg E c), tasks = ts\<rparr>)) \<longrightarrow>
        compress_start cfg E (Some f) (Some opts)
            (vc (run cfg E evs \<lparr>vc = snd (init cfg E c), tasks = ts\<rparr>)) =
          (AwaitInit f opts (Inr ()), vc (run cfg E evs \<lparr>vc = snd (init cfg E c), tasks = ts\<rparr>))) \<and>
     (truthy_str (mode opts) \<and> \<not> isRunningJob c \<longrightarrow>
        resumed cfg E now 1 (compress_start cfg E (Some f) (Some opts) c) =
          (Settled (Inl e), snd (init cfg E c)) \<and>
        fst (resumed cfg E now 5 (compress_start cfg E (Some f) (Some opts) (snd (init cfg E c)))) =
          Settled (propagated cfg E now f opts e1)) \<and>
     (truthy_str (mode opts) \<and> \<not> isRunningJob c \<and>
      buildArgs (inputName_of now f) (outputName_of now (resolve_output (job_output opts))) opts
        (resolve_output (job_output opts)) = Inr args \<and>
      fileFetcher cfg f = Inr data \<longrightarrow>
        resumed cfg E now 2 (compress_start cfg E (Some f) (Some opts) (snd (init cfg E c))) =
          (AwaitWrite
             \<lparr>job_inputName = inputName_of now f,
              job_outputName = outputName_of now (resolve_output (job_output opts)),
              job_args = args, job_mimeType = out_mimeType (resolve_output (job_output opts))\<rparr>
             (fst (ffmpeg_writeFile E (inputName_of now f) data e1)),
           (snd (init cfg E c))\<lparr>activeJobHooks :=
                \<lparr>onLog = or_else (job_onLog opts) (cfg_onLog cfg),
                 onProgress = or_else (job_onProgress opts) (cfg_onProgress cfg)\<rparr>,
             ffmpeg := Some (snd (ffmpeg_writeFile E (inputName_of now f) data e1)),
             calls := calls c @ [CFactory (ffmpegOptions cfg), COn ''log'', COn ''progress'', CLoad,
                                 CFetch f, CWriteFile (inputName_of now f) data]\<rparr>)) \<and>
     (truthy_str (mode opts) \<and>
      \<not> isRunningJob (vc (run cfg E evs \<lparr>vc = snd (init cfg E c), tasks = ts\<rparr>)) \<longrightarrow>
        (\<exists>eng. ffmpeg (vc (run cfg E evs \<lparr>vc = snd (init cfg E c), tasks = ts\<rparr>)) = Some eng \<and>
           fst (resumed cfg E now 5 (compress_start cfg E (Some f) (Some opts)
                  (vc (run cfg E evs \<lparr>vc = snd (init cfg E c), tasks = ts\<rparr>)))) =
             Settled (propagated cfg E now f opts eng) \<and>
           (buildArgs (inputName_of now f) (outputName_of now (resolve_output (job_output opts))) opts
              (resolve_output (job_output opts)) = Inr args \<and>
            fileFetcher cfg f = Inr data \<longrightarrow>
              resumed cfg E now 2 (compress_start cfg E (Some f) (Some opts)
                  (vc (run cfg E evs \<lparr>vc = snd (init cfg E c), tasks = ts\<rparr>))) =
                (AwaitWrite
                   \<lparr>job_inputName = inputName_of now f,
                    job_outputName = outputName_of now (resolve_output (job_output opts)),
                    job_args = args, job_mimeType = out_mimeType (resolve_output (job_output opts))\<rparr>
                   (fst (ffmpeg_writeFile E (inputName_of now f) data eng)),
                 (vc (run cfg E evs \<lparr>vc = snd (init cfg E c), tasks = ts\<rparr>))
                   \<lparr>activeJobHooks :=
                      \<lparr>onLog = or_else (job_onLog opts) (cfg_onLog cfg),
                       onProgress = or_else (job_onProgress opts) (cfg_onProgress cfg)\<rparr>,
                    ffmpeg := Some (snd (ffmpeg_writeFile E (inputName_of now f) data eng)),
                    calls := calls (vc (run cfg E evs \<lparr>vc = snd (init cfg E c), tasks = ts\<rparr>)) @
                      [CFetch f, CWriteFile (inputName_of now f) data]\<rparr>))))"
proof -
  let ?c1 = "snd (init cfg E c)"
  let ?s = "run cfg E evs \<lparr>vc = ?c1, tasks = ts\<rparr>"
  let ?b = "buildArgs (inputName_of now f) (outputName_of now (resolve_output (job_output opts))) opts
        (resolve_output (job_output opts))"
  let ?job = "\<lparr>job_inputName = inputName_of now f,
              job_outputName = outputName_of now (resolve_output (job_output opts)),
              job_args = args, job_mimeType = out_mimeType (resolve_output (job_output opts))\<rparr>"
  let ?h = "\<lparr>onLog = or_else (job_onLog opts) (cfg_onLog cfg),
                 onProgress = or_else (job_onProgress opts) (cfg_onProgress cfg)\<rparr>"
  from assms have i: "init cfg E c =
      (Awaiting (Inl e),
       c\<lparr>ffmpeg := Some e1, loadingPromise := Some (Inl e),
         calls := calls c @ [CFactory (ffmpegOptions cfg), COn ''log'', COn ''progress'', CLoad]\<rparr>)"
    by (simp add: init_fresh)
  then have 1: "init cfg E c = (Awaiting (Inl e), ?c1)" by simp
  have 2: "resume cfg E now (InitPending (Inl e)) c' = (InitSettled (Inl e), c')" by simp
  have 3: "truthy_str (mode opts) \<and> \<not> isRunningJob c \<longrightarrow>
        compress_start cfg E (Some f) (Some opts) c = (AwaitInit f opts (Inl e), ?c1)"
    using i by (simp add: compress_start_idle)
  have 4: "resume cfg E now (AwaitInit f opts (Inl e)) c' = (Settled (Inl e), c')" by simp
  from i have 5: "ffmpeg ?c1 = Some e1" by simp
  from i have l: "loads (calls ?c1) = loads (calls c) + 1" by simp
  from i have r: "isRunningJob ?c1 = isRunningJob c" by simp
  from i have k: "calls ?c1 = calls c @ [CFactory (ffmpegOptions cfg), COn ''log'', COn ''progress'', CLoad]"
    by simp
  from 5 have "ffmpeg (vc \<lparr>vc = ?c1, tasks = ts\<rparr>) \<noteq> None" by simp
  from run_keeps_engine[OF this, of cfg E evs]
  have 6: "ffmpeg (vc ?s) \<noteq> None" and 8: "loads (calls (vc ?s)) = loads (calls c) + 1"
    using l by simp_all
  from 6 have 7: "init cfg E (vc ?s) = (Returned, vc ?s)" by (rule init_keeps_engine)
  have 9: "truthy_str (mode opts) \<and> \<not> isRunningJob (vc ?s) \<longrightarrow>
        compress_start cfg E (Some f) (Some opts) (vc ?s) = (AwaitInit f opts (Inr ()), vc ?s)"
    using 7 by (simp add: compress_start_idle)
  have 10: "truthy_str (mode opts) \<and> \<not> isRunningJob c \<longrightarrow>
        resumed cfg E now 1 (compress_start cfg E (Some f) (Some opts) c) = (Settled (Inl e), ?c1) \<and>
        fst (resumed cfg E now 5 (compress_start cfg E (Some f) (Some opts) ?c1)) =
          Settled (propagated cfg E now f opts e1)"
    using 3 5 r compress_alone_created[of opts ?c1 e1 cfg E now f]
    by (simp add: resumed_Suc)
  have 11: "truthy_str (mode opts) \<and> \<not> isRunningJob c \<and> ?b = Inr args \<and> fileFetcher cfg f = Inr data \<longrightarrow>
        resumed cfg E now 2 (compress_start cfg E (Some f) (Some opts) ?c1) =
          (AwaitWrite ?job (fst (ffmpeg_writeFile E (inputName_of now f) data e1)),
           ?c1\<lparr>activeJobHooks := ?h,
             ffmpeg := Some (snd (ffmpeg_writeFile E (inputName_of now f) data e1)),
             calls := calls c @ [CFactory (ffmpegOptions cfg), COn ''log'', COn ''progress'', CLoad,
                                 CFetch f, CWriteFile (inputName_of now f) data]\<rparr>)"
  proof (intro impI, elim conjE)
    assume a: "truthy_str (mode opts)" "\<not> isRunningJob c" "?b = Inr args" "fileFetcher cfg f = Inr data"
    from a r 5 have "compress_start cfg E (Some f) (Some opts) ?c1 = (AwaitInit f opts (Inr ()), ?c1)"
      by (simp add: compress_start_created)
    then show "resumed cfg E now 2 (compress_start cfg E (Some f) (Some opts) ?c1) =
          (AwaitWrite ?job (fst (ffmpeg_writeFile E (inputName_of now f) data e1)),
           ?c1\<lparr>activeJobHooks := ?h,
             ffmpeg := Some (snd (ffmpeg_writeFile E (inputName_of now f) data e1)),
             calls := calls c @ [CFactory (ffmpegOptions cfg), COn ''log'', COn ''progress'', CLoad,
                                 CFetch f, CWriteFile (inputName_of now f) data]\<rparr>)"
      using resumed_to_write[OF a(3) 5 a(4), of E] k by simp
  qed
  have 12: "truthy_str (mode opts) \<and> \<not> isRunningJob (vc ?s) \<longrightarrow>
        (\<exists>eng. ffmpeg (vc ?s) = Some eng \<and>
           fst (resumed cfg E now 5 (compress_start cfg E (Some f) (Some opts) (vc ?s))) =
             Settled (propagated cfg E now f opts eng) \<and>
           (?b = Inr args \<and> fileFetcher cfg f = Inr data \<longrightarrow>
              resumed cfg E now 2 (compress_start cfg E (Some f) (Some opts) (vc ?s)) =
                (AwaitWrite ?job (fst (ffmpeg_writeFile E (inputName_of now f) data eng)),
                 (vc ?s)\<lparr>activeJobHooks := ?h,
                    ffmpeg := Some (snd (ffmpeg_writeFile E (inputName_of now f) data eng)),
                    calls := calls (vc ?s) @ [CFetch f, CWriteFile (inputName_of now f) data]\<rparr>)))"
  proof (intro impI, elim conjE)
    assume a: "truthy_str (mode opts)" "\<not> isRunningJob (vc ?s)"
    from 6 obtain eng where g: "ffmpeg (vc ?s) = Some eng" by blast
    from a g have st: "compress_start cfg E (Some f) (Some opts) (vc ?s) = (AwaitInit f opts (Inr ()), vc ?s)"
      by (simp add: compress_start_created)
    have o: "fst (resumed cfg E now 5 (compress_start cfg E (Some f) (Some opts) (vc ?s))) =
             Settled (propagated cfg E now f opts eng)"
      using a g by (rule compress_alone_created)
    have w: "?b = Inr args \<and> fileFetcher cfg f = Inr data \<longrightarrow>
              resumed cfg E now 2 (compress_start cfg E (Some f) (Some opts) (vc ?s)) =
                (AwaitWrite ?job (fst (ffmpeg_writeFile E (inputName_of now f) data eng)),
                 (vc ?s)\<lparr>activeJobHooks := ?h,
                    ffmpeg := Some (snd (ffmpeg_writeFile E (inputName_of now f) data eng)),
                    calls := calls (vc ?s) @ [CFetch f, CWriteFile (inputName_of now f) data]\<rparr>)"
      unfolding st using resumed_to_write[of now f opts args "vc ?s" eng cfg data E] g by blast
    from g o w show "\<exists>eng. ffmpeg (vc ?s) = Some eng \<and>
           fst (resumed cfg E now 5 (compress_start cfg E (Some f) (Some opts) (vc ?s))) =
             Settled (propagated cfg E now f opts eng) \<and>
           (?b = Inr args \<and> fileFetcher cfg f = Inr data \<longrightarrow>
              resumed cfg E now 2 (compress_start cfg E (Some f) (Some opts) (vc ?s)) =
                (AwaitWrite ?job (fst (ffmpeg_writeFile E (inputName_of now f) data eng)),
                 (vc ?s)\<lparr>activeJobHooks := ?h,
                    ffmpeg := Some (snd (ffmpeg_writeFile E (inputName_of now f) data eng)),
                    calls := calls (vc ?s) @ [CFetch f, CWriteFile (inputName_of now f) data]\<rparr>))"
      by blast
  qed
  from 1 2 3 4 5 6 7 8 9 10 11 12 show ?thesis by blast
qed

theorem failed_load_keeps_engine_witness:
  "init testConfig FailingLoadFFmpeg new_VideoCompressor =
     (Awaiting (Inl (External ''load failed'')), snd (init testConfig FailingLoadFFmpeg new_VideoCompressor)) \<and>
   ffmpeg (snd (init testConfig FailingLoadFFmpeg new_VideoCompressor)) =
     Some \<lparr>log_listeners = 1, progress_listeners = 1, writtenFiles = (\<lambda>_. None), execArgs = None\<rparr> \<and>
   loads (calls (vc (run testConfig FailingLoadFFmpeg [Resume 1 (0, 0), CallInit 2, CallInit 3]
     \<lparr>vc = snd (init testConfig FailingLoadFFmpeg new_VideoCompressor),
      tasks = [1 \<mapsto> InitPending (Inl (External ''load failed''))]\<rparr>))) = 1 \<and>
   resumed testConfig FailingLoadFFmpeg (0, 0) 1
     (compress_start testConfig FailingLoadFFmpeg (Some videoFile) (Some (no_options\<lparr>mode := Some COPY\<rparr>))
        new_VideoCompressor) =
     (Settled (Inl (External ''load failed'')), snd (init testConfig FailingLoadFFmpeg new_VideoCompressor)) \<and>
   fst (resumed testConfig FailingLoadFFmpeg (0, 0) 2
     (compress_start testConfig FailingLoadFFmpeg (Some videoFile) (Some (no_options\<lparr>mode := Some COPY\<rparr>))
        (snd (init testConfig FailingLoadFFmpeg new_VideoCompressor)))) =
     AwaitWrite running_job (Inr ()) \<and>
   calls (snd (resumed testConfig FailingLoadFFmpeg (0, 0) 2
     (compress_start testConfig FailingLoadFFmpeg (Some videoFile) (Some (no_options\<lparr>mode := Some COPY\<rparr>))
        (snd (init testConfig FailingLoadFFmpeg new_VideoCompressor))))) =
     [CFactory \<lparr>opt_log = True, opt_corePath = None\<rparr>, COn ''log'', COn ''progress'', CLoad,
      CFetch videoFile, CWriteFile ''input-0.mp4'' [0]] \<and>
   fst (resumed testConfig FailingLoadFFmpeg (0, 0) 5
     (compress_start testConfig FailingLoadFFmpeg (Some videoFile) (Some (no_options\<lparr>mode := Some COPY\<rparr>))
        (snd (init testConfig FailingLoadFFmpeg new_VideoCompressor)))) =
     Settled (Inr \<lparr>blob_data = [1, 2, 3], blob_type = ''video/mp4''\<rparr>) \<and>
   (\<exists>eng. ffmpeg (vc (run testConfig FailingLoadFFmpeg [Resume 1 (0, 0), CallInit 2, CallInit 3]
              \<lparr>vc = snd (init testConfig FailingLoadFFmpeg new_VideoCompressor),
               tasks = [1 \<mapsto> InitPending (Inl (External ''load failed''))]\<rparr>)) = Some eng \<and>
      fst (resumed testConfig FailingLoadFFmpeg (0, 0) 5
        (compress_start testConfig FailingLoadFFmpeg (Some videoFile)
           (Some (no_options\<lparr>mode := Some COPY\<rparr>))
           (vc (run testConfig FailingLoadFFmpeg [Resume 1 (0, 0), CallInit 2, CallInit 3]
              \<lparr>vc = snd (init testConfig FailingLoadFFmpeg new_VideoCompressor),
               tasks = [1 \<mapsto> InitPending (Inl (External ''load failed''))]\<rparr>)))) =
        Settled (propagated testConfig FailingLoadFFmpeg (0, 0) videoFile
                   (no_options\<lparr>mode := Some COPY\<rparr>) eng))"
proof -
  let ?copy = "no_options\<lparr>mode := Some COPY\<rparr>"
  let ?e1 = "\<lparr>log_listeners = 1, progress_listeners = 1, writtenFiles = (\<lambda>_. None), execArgs = None\<rparr>"
  let ?c1 = "snd (init testConfig FailingLoadFFmpeg (new_VideoCompressor :: Stub VideoCompressor))"
  let ?evs = "[Resume 1 (0, 0), CallInit 2, CallInit 3]"
  let ?ts = "[1 \<mapsto> InitPending (Inl (External ''load failed''))]"
  let ?s = "run testConfig FailingLoadFFmpeg ?evs \<lparr>vc = ?c1, tasks = ?ts\<rparr>"
  have h: "ffmpeg (new_VideoCompressor :: Stub VideoCompressor) = None"
    "loadingPromise (new_VideoCompressor :: Stub VideoCompressor) = None"
    "ffmpeg_load FailingLoadFFmpeg (created testConfig FailingLoadFFmpeg) =
       (Inl (External ''load failed''), ?e1)"
    by (simp_all add: new_VideoCompressor_def FailingLoadFFmpeg_def StubFFmpeg_def created_def
        testConfig_def createStubFFmpeg_def)
  note T = failed_load_keeps_engine [OF h, where evs = ?evs and ts = ?ts and opts = ?copy
      and f = videoFile and now = "(0, 0)" and data = "[0]" and args = "job_args running_job"]
  have z: "loads (calls (new_VideoCompressor :: Stub VideoCompressor)) = 0"
    "calls (new_VideoCompressor :: Stub VideoCompressor) = []"
    by (simp_all add: new_VideoCompressor_def)
  have m: "truthy_str (mode ?copy)" by simp
  have nb: "\<not> isRunningJob (new_VideoCompressor :: Stub VideoCompressor)"
    by (simp add: new_VideoCompressor_def)
  have nr: "\<not> isRunningJob (vc ?s)" by code_simp
  have ba: "buildArgs (inputName_of (0, 0) videoFile)
      (outputName_of (0, 0) (resolve_output (job_output ?copy))) ?copy
      (resolve_output (job_output ?copy)) = Inr (job_args running_job)"
    by code_simp
  have ff: "fileFetcher testConfig videoFile = Inr [0]" by (simp add: testConfig_def)
  have jn: "outputName_of (0, 0) (resolve_output (job_output no_options)) = ''output-0.mp4''"
    by code_simp
  have mt: "out_mimeType (resolve_output (job_output no_options)) = Some ''video/mp4''"
    by code_simp
  have inp: "inputName_of (0, 0) videoFile = ''input-0.mp4''" by code_simp
  have wf: "\<And>n d e. fst (ffmpeg_writeFile FailingLoadFFmpeg n d e) = Inr ()"
    by (simp add: FailingLoadFFmpeg_def StubFFmpeg_def)
  have pr: "propagated testConfig FailingLoadFFmpeg (0, 0) videoFile ?copy ?e1 =
      Inr \<lparr>blob_data = [1, 2, 3], blob_type = ''video/mp4''\<rparr>"
    by code_simp
  have op: "ffmpegOptions testConfig = \<lparr>opt_log = True, opt_corePath = None\<rparr>"
    by code_simp
  from T have 1: "init testConfig FailingLoadFFmpeg new_VideoCompressor =
      (Awaiting (Inl (External ''load failed'')), ?c1)"
    by blast
  from T have 2: "ffmpeg ?c1 = Some ?e1" by blast
  from T have "loads (calls (vc ?s)) = loads (calls (new_VideoCompressor :: Stub VideoCompressor)) + 1"
    by blast
  then have 3: "loads (calls (vc ?s)) = 1" by (simp add: z)
  from T m nb have 4: "resumed testConfig FailingLoadFFmpeg (0, 0) 1
      (compress_start testConfig FailingLoadFFmpeg (Some videoFile) (Some ?copy) new_VideoCompressor) =
      (Settled (Inl (External ''load failed'')), ?c1)"
    by blast
  from T m nb have 7: "fst (resumed testConfig FailingLoadFFmpeg (0, 0) 5
      (compress_start testConfig FailingLoadFFmpeg (Some videoFile) (Some ?copy) ?c1)) =
      Settled (propagated testConfig FailingLoadFFmpeg (0, 0) videoFile ?copy ?e1)"
    by blast
  from T m nb ba ff have w: "resumed testConfig FailingLoadFFmpeg (0, 0) 2
      (compress_start testConfig FailingLoadFFmpeg (Some videoFile) (Some ?copy) ?c1) =
      (AwaitWrite
         \<lparr>job_inputName = inputName_of (0, 0) videoFile,
          job_outputName = outputName_of (0, 0) (resolve_output (job_output ?copy)),
          job_args = job_args running_job,
          job_mimeType = out_mimeType (resolve_output (job_output ?copy))\<rparr>
         (fst (ffmpeg_writeFile FailingLoadFFmpeg (inputName_of (0, 0) videoFile) [0] ?e1)),
       ?c1\<lparr>activeJobHooks :=
            \<lparr>onLog = or_else (job_onLog ?copy) (cfg_onLog testConfig),
             onProgress = or_else (job_onProgress ?copy) (cfg_onProgress testConfig)\<rparr>,
          ffmpeg := Some (snd (ffmpeg_writeFile FailingLoadFFmpeg (inputName_of (0, 0) videoFile) [0] ?e1)),
          calls := calls (new_VideoCompressor :: Stub VideoCompressor) @
            [CFactory (ffmpegOptions testConfig), COn ''log'', COn ''progress'', CLoad,
             CFetch videoFile, CWriteFile (inputName_of (0, 0) videoFile) [0]]\<rparr>)"
    by blast
  have 5: "fst (resumed testConfig FailingLoadFFmpeg (0, 0) 2
      (compress_start testConfig FailingLoadFFmpeg (Some videoFile) (Some ?copy) ?c1)) =
      AwaitWrite running_job (Inr ())"
    using w by (simp add: inp jn mt wf running_job_def)
  have 6: "calls (snd (resumed testConfig FailingLoadFFmpeg (0, 0) 2
      (compress_start testConfig FailingLoadFFmpeg (Some videoFile) (Some ?copy) ?c1))) =
      [CFactory \<lparr>opt_log = True, opt_corePath = None\<rparr>, COn ''log'', COn ''progress'', CLoad,
       CFetch videoFile, CWriteFile ''input-0.mp4'' [0]]"
    using w by (simp add: inp z op)
  from T m nr have 8: "\<exists>eng. ffmpeg (vc ?s) = Some eng \<and>
      fst (resumed testConfig FailingLoadFFmpeg (0, 0) 5
        (compress_start testConfig FailingLoadFFmpeg (Some videoFile) (Some ?copy) (vc ?s))) =
        Settled (propagated testConfig FailingLoadFFmpeg (0, 0) videoFile ?copy eng)"
    by blast
  from 1 2 3 4 5 6 7 8 show ?thesis unfolding pr by blast
qed

subsection \<open>The busy flag\<close>

text \<open>
  Claim C2 at two \<^verbatim>\<open>compress\<close> calls made back to back on a new instance. The flag is
  set only when the first call has written its input, so the second call passes the
  busy check and suspends at \<^verbatim>\<open>await this.init()\<close>; resumed in turn, both calls invoke
  \<^verbatim>\<open>exec\<close> and are inside the \<^verbatim>\<open>try\<close> block at the same time. (Once the flag is set a
  call is rejected at once and changes nothing: lemma \<open>compress_start_busy\<close>.)
\<close>

theorem concurrent_calls_both_run:
  "tasks (run testConfig StubFFmpeg two_calls initial) 2 =
     Some (AwaitInit videoFile (no_options\<lparr>mode := Some COPY_MUTE\<rparr>) (Inr ())) \<and>
   tasks (run testConfig StubFFmpeg (two_calls @ resumed_in_turn) initial) 1 =
     Some (AwaitExec running_job (Inr ())) \<and>
   tasks (run testConfig StubFFmpeg (two_calls @ resumed_in_turn) initial) 2 =
     Some (AwaitExec
       (running_job\<lparr>job_args := [''-i'', ''input-0.mp4'', ''-c:v'', ''copy'', ''-an'', ''-movflags'',
          ''+faststart'', ''-y'', ''output-0.mp4'']\<rparr>) (Inr ())) \<and>
   filter (\<lambda>x. case x of CExec _ \<Rightarrow> True | _ \<Rightarrow> False)
     (calls (vc (run testConfig StubFFmpeg (two_calls @ resumed_in_turn) initial))) =
     [CExec [''-i'', ''input-0.mp4'', ''-c:v'', ''copy'', ''-c:a'', ''copy'', ''-movflags'',
             ''+faststart'', ''-y'', ''output-0.mp4''],
      CExec [''-i'', ''input-0.mp4'', ''-c:v'', ''copy'', ''-an'', ''-movflags'', ''+faststart'',
             ''-y'', ''output-0.mp4'']]"
  by code_simp

subsection \<open>Copy modes\<close>

lemma propagated_copy:
  assumes "mode o1 = Some COPY \<or> mode o1 = Some COPY_MUTE" "mode o2 = mode o1"
    "job_output o2 = job_output o1"
  shows "propagated cfg E now f o1 e0 = propagated cfg E now f o2 e0"
proof -
  have "\<And>i out ro. buildArgs i out o1 ro = buildArgs i out o2 ro"
    using assms by (auto simp: buildArgs_copy buildArgs_copy_mute)
  with assms(3) show ?thesis by (simp add: propagated_def)
qed

text \<open>
  Claim C9. In the modes copy and copy-mute the argument list depends on the mode and
  the two names only: the video and audio options are not read. With both \<^verbatim>\<open>video.crf\<close>
  and \<^verbatim>\<open>video.bitrate\<close> supplied the list is built and the call goes on (no configuration
  error): it fetches the file, invokes \<^verbatim>\<open>writeFile\<close> with the bytes fetched and, once the
  input is written, sets the busy flag and invokes \<^verbatim>\<open>exec\<close> with the list. The outcome of
  a call in these modes does not depend on its video and audio options.
\<close>

theorem copy_modes_ignore_options:
  "((mode o1 = Some COPY \<or> mode o1 = Some COPY_MUTE) \<and> mode o2 = mode o1 \<longrightarrow>
      buildArgs i out o1 ro1 = buildArgs i out o2 ro2) \<and>
   buildArgs i out (opts\<lparr>mode := Some COPY, video := Some (v\<lparr>crf := Some q, vbitrate := Some b\<rparr>)\<rparr>) ro =
     Inr [''-i'', i, ''-c:v'', ''copy'', ''-c:a'', ''copy'', ''-movflags'', ''+faststart'', ''-y'', out] \<and>
   buildArgs i out (opts\<lparr>mode := Some COPY_MUTE, video := Some (v\<lparr>crf := Some q, vbitrate := Some b\<rparr>)\<rparr>) ro =
     Inr [''-i'', i, ''-c:v'', ''copy'', ''-an'', ''-movflags'', ''+faststart'', ''-y'', out] \<and>
   (ffmpeg c \<noteq> None \<and> (m = COPY \<or> m = COPY_MUTE) \<longrightarrow>
      (\<exists>job. resume cfg E now
           (AwaitInit f (opts\<lparr>mode := Some m, video := Some (v\<lparr>crf := Some q, vbitrate := Some b\<rparr>)\<rparr>)
              (Inr ())) c =
         (AwaitFetch job (fileFetcher cfg f),
          c\<lparr>activeJobHooks :=
               \<lparr>onLog = or_else (job_onLog opts) (cfg_onLog cfg),
                onProgress = or_else (job_onProgress opts) (cfg_onProgress cfg)\<rparr>,
            calls := calls c @ [CFetch f]\<rparr>) \<and>
         buildArgs (job_inputName job) (job_outputName job) (opts\<lparr>mode := Some m\<rparr>) ro = Inr (job_args job))) \<and>
   (ffmpeg c = Some eng \<longrightarrow>
      resume cfg E now (AwaitFetch job (Inr data)) c =
        (AwaitWrite job (fst (ffmpeg_writeFile E (job_inputName job) data eng)),
         c\<lparr>ffmpeg := Some (snd (ffmpeg_writeFile E (job_inputName job) data eng)),
           calls := calls c @ [CWriteFile (job_inputName job) data]\<rparr>)) \<and>
   (ffmpeg c = Some eng \<longrightarrow>
      resume cfg E now (AwaitWrite job (Inr ())) c =
        (AwaitExec job (fst (ffmpeg_exec E (job_args job) eng)),
         c\<lparr>isRunningJob := True, ffmpeg := Some (snd (ffmpeg_exec E (job_args job) eng)),
           calls := calls c @ [CExec (job_args job)]\<rparr>)) \<and>
   ((m = COPY \<or> m = COPY_MUTE) \<and> \<not> isRunningJob c \<and> ffmpeg c = Some eng \<and>
    fileFetcher cfg f = Inr data \<and>
    ffmpeg_writeFile E (inputName_of now f) data eng = (Inr (), eng') \<and>
    args = [''-i'', inputName_of now f, ''-c:v'', ''copy''] @
           (if m = COPY then [''-c:a'', ''copy''] else [''-an'']) @
           [''-movflags'', ''+faststart'', ''-y'', outputName_of now (resolve_output (job_output opts))] \<longrightarrow>
      resumed cfg E now 3
        (compress_start cfg E (Some f)
           (Some (opts\<lparr>mode := Some m, video := Some (v\<lparr>crf := Some q, vbitrate := Some b\<rparr>)\<rparr>)) c) =
        (AwaitExec
           \<lparr>job_inputName = inputName_of now f,
            job_outputName = outputName_of now (resolve_output (job_output opts)),
            job_args = args, job_mimeType = out_mimeType (resolve_output (job_output opts))\<rparr>
           (fst (ffmpeg_exec E args eng')),
         c\<lparr>activeJobHooks :=
              \<lparr>onLog = or_else (job_onLog opts) (cfg_onLog cfg),
               onProgress = or_else (job_onProgress opts) (cfg_onProgress cfg)\<rparr>,
           isRunningJob := True,
           ffmpeg := Some (snd (ffmpeg_exec E args eng')),
           calls := calls c @ [CFetch f, CWriteFile (inputName_of now f) data, CExec args]\<rparr>)) \<and>
   ((mode o1 = Some COPY \<or> mode o1 = Some COPY_MUTE) \<and> mode o2 = mode o1 \<and>
    job_output o2 = job_output o1 \<and> \<not> isRunningJob c \<and> ffmpeg c = Some eng \<longrightarrow>
      fst (resumed cfg E now 5 (compress_start cfg E (Some f) (Some o1) c)) =
        Settled (propagated cfg E now f o1 eng) \<and>
      fst (resumed cfg E now 5 (compress_start cfg E (Some f) (Some o2) c)) =
        Settled (propagated cfg E now f o1 eng))"
proof -
  let ?o = "opts\<lparr>mode := Some m, video := Some (v\<lparr>crf := Some q, vbitrate := Some b\<rparr>)\<rparr>"
  have 1: "(mode o1 = Some COPY \<or> mode o1 = Some COPY_MUTE) \<and> mode o2 = mode o1 \<longrightarrow>
      buildArgs i out o1 ro1 = buildArgs i out o2 ro2"
    by (auto simp: buildArgs_copy buildArgs_copy_mute)
  have 2: "buildArgs i out (opts\<lparr>mode := Some COPY, video := Some (v\<lparr>crf := Some q, vbitrate := Some b\<rparr>)\<rparr>) ro =
     Inr [''-i'', i, ''-c:v'', ''copy'', ''-c:a'', ''copy'', ''-movflags'', ''+faststart'', ''-y'', out]"
    by (simp add: buildArgs_copy)
  have 3: "buildArgs i out (opts\<lparr>mode := Some COPY_MUTE, video := Some (v\<lparr>crf := Some q, vbitrate := Some b\<rparr>)\<rparr>) ro =
     Inr [''-i'', i, ''-c:v'', ''copy'', ''-an'', ''-movflags'', ''+faststart'', ''-y'', out]"
    by (simp add: buildArgs_copy_mute)
  have 4: "ffmpeg c \<noteq> None \<and> (m = COPY \<or> m = COPY_MUTE) \<longrightarrow>
      (\<exists>job. resume cfg E now (AwaitInit f ?o (Inr ())) c =
         (AwaitFetch job (fileFetcher cfg f),
          c\<lparr>activeJobHooks :=
               \<lparr>onLog = or_else (job_onLog opts) (cfg_onLog cfg),
                onProgress = or_else (job_onProgress opts) (cfg_onProgress cfg)\<rparr>,
            calls := calls c @ [CFetch f]\<rparr>) \<and>
         buildArgs (job_inputName job) (job_outputName job) (opts\<lparr>mode := Some m\<rparr>) ro = Inr (job_args job))"
    by (auto simp: buildArgs_copy buildArgs_copy_mute Let_def)
  have 5: "ffmpeg c = Some eng \<longrightarrow>
      resume cfg E now (AwaitFetch job (Inr data)) c =
        (AwaitWrite job (fst (ffmpeg_writeFile E (job_inputName job) data eng)),
         c\<lparr>ffmpeg := Some (snd (ffmpeg_writeFile E (job_inputName job) data eng)),
           calls := calls c @ [CWriteFile (job_inputName job) data]\<rparr>)"
    by (simp add: resume_fetch_fulfilled del: resume.simps)
  have 6: "ffmpeg c = Some eng \<longrightarrow>
      resume cfg E now (AwaitWrite job (Inr ())) c =
        (AwaitExec job (fst (ffmpeg_exec E (job_args job) eng)),
         c\<lparr>isRunningJob := True, ffmpeg := Some (snd (ffmpeg_exec E (job_args job) eng)),
           calls := calls c @ [CExec (job_args job)]\<rparr>)"
    by (simp add: resume_write_fulfilled del: resume.simps)
  have 7: "(m = COPY \<or> m = COPY_MUTE) \<and> \<not> isRunningJob c \<and> ffmpeg c = Some eng \<and>
    fileFetcher cfg f = Inr data \<and>
    ffmpeg_writeFile E (inputName_of now f) data eng = (Inr (), eng') \<and>
    args = [''-i'', inputName_of now f, ''-c:v'', ''copy''] @
           (if m = COPY then [''-c:a'', ''copy''] else [''-an'']) @
           [''-movflags'', ''+faststart'', ''-y'', outputName_of now (resolve_output (job_output opts))] \<longrightarrow>
      resumed cfg E now 3 (compress_start cfg E (Some f) (Some ?o) c) =
        (AwaitExec
           \<lparr>job_inputName = inputName_of now f,
            job_outputName = outputName_of now (resolve_output (job_output opts)),
            job_args = args, job_mimeType = out_mimeType (resolve_output (job_output opts))\<rparr>
           (fst (ffmpeg_exec E args eng')),
         c\<lparr>activeJobHooks :=
              \<lparr>onLog = or_else (job_onLog opts) (cfg_onLog cfg),
               onProgress = or_else (job_onProgress opts) (cfg_onProgress cfg)\<rparr>,
           isRunningJob := True,
           ffmpeg := Some (snd (ffmpeg_exec E args eng')),
           calls := calls c @ [CFetch f, CWriteFile (inputName_of now f) data, CExec args]\<rparr>)"
  proof (intro impI, elim conjE)
    assume a: "m = COPY \<or> m = COPY_MUTE" "\<not> isRunningJob c" "ffmpeg c = Some eng"
      "fileFetcher cfg f = Inr data"
      "ffmpeg_writeFile E (inputName_of now f) data eng = (Inr (), eng')"
      "args = [''-i'', inputName_of now f, ''-c:v'', ''copy''] @
           (if m = COPY then [''-c:a'', ''copy''] else [''-an'']) @
           [''-movflags'', ''+faststart'', ''-y'', outputName_of now (resolve_output (job_output opts))]"
    from a(1) have t: "truthy_str (mode ?o)" by auto
    from a(1,6) have ba: "buildArgs (inputName_of now f)
        (outputName_of now (resolve_output (job_output ?o))) ?o (resolve_output (job_output ?o)) = Inr args"
      by (auto simp: buildArgs_copy buildArgs_copy_mute)
    from t a(2,3) have st: "compress_start cfg E (Some f) (Some ?o) c = (AwaitInit f ?o (Inr ()), c)"
      by (rule compress_start_created)
    show "resumed cfg E now 3 (compress_start cfg E (Some f) (Some ?o) c) =
        (AwaitExec
           \<lparr>job_inputName = inputName_of now f,
            job_outputName = outputName_of now (resolve_output (job_output opts)),
            job_args = args, job_mimeType = out_mimeType (resolve_output (job_output opts))\<rparr>
           (fst (ffmpeg_exec E args eng')),
         c\<lparr>activeJobHooks :=
              \<lparr>onLog = or_else (job_onLog opts) (cfg_onLog cfg),
               onProgress = or_else (job_onProgress opts) (cfg_onProgress cfg)\<rparr>,
           isRunningJob := True,
           ffmpeg := Some (snd (ffmpeg_exec E args eng')),
           calls := calls c @ [CFetch f, CWriteFile (inputName_of now f) data, CExec args]\<rparr>)"
      unfolding st using resumed_to_exec[OF ba a(3) a(4) a(5)] by simp
  qed
  have 8: "(mode o1 = Some COPY \<or> mode o1 = Some COPY_MUTE) \<and> mode o2 = mode o1 \<and>
    job_output o2 = job_output o1 \<and> \<not> isRunningJob c \<and> ffmpeg c = Some eng \<longrightarrow>
      fst (resumed cfg E now 5 (compress_start cfg E (Some f) (Some o1) c)) =
        Settled (propagated cfg E now f o1 eng) \<and>
      fst (resumed cfg E now 5 (compress_start cfg E (Some f) (Some o2) c)) =
        Settled (propagated cfg E now f o1 eng)"
  proof (intro impI, elim conjE)
    assume a: "mode o1 = Some COPY \<or> mode o1 = Some COPY_MUTE" "mode o2 = mode o1"
      "job_output o2 = job_output o1" "\<not> isRunningJob c" "ffmpeg c = Some eng"
    from a(1) have t1: "truthy_str (mode o1)" by auto
    with a(2) have t2: "truthy_str (mode o2)" by simp
    have p: "propagated cfg E now f o2 eng = propagated cfg E now f o1 eng"
      using propagated_copy[OF a(1,2,3), of cfg E now f eng] by simp
    from compress_alone_created[OF t1 a(4,5)] compress_alone_created[OF t2 a(4,5)] p
    show "fst (resumed cfg E now 5 (compress_start cfg E (Some f) (Some o1) c)) =
        Settled (propagated cfg E now f o1 eng) \<and>
      fst (resumed cfg E now 5 (compress_start cfg E (Some f) (Some o2) c)) =
        Settled (propagated cfg E now f o1 eng)"
      by simp
  qed
  from 1 2 3 4 5 6 7 8 show ?thesis by blast
qed

theorem copy_modes_ignore_options_witness:
  "ffmpeg (running_instance\<lparr>isRunningJob := False\<rparr>) \<noteq> None \<and>
   fst (resumed testConfig StubFFmpeg (0, 0) 3
          (compress_start testConfig StubFFmpeg (Some videoFile)
             (Some (conflicting_options\<lparr>mode := Some COPY\<rparr>))
             (running_instance\<lparr>isRunningJob := False\<rparr>))) = AwaitExec running_job (Inr ()) \<and>
   calls (snd (resumed testConfig StubFFmpeg (0, 0) 3
          (compress_start testConfig StubFFmpeg (Some videoFile)
             (Some (conflicting_options\<lparr>mode := Some COPY\<rparr>))
             (running_instance\<lparr>isRunningJob := False\<rparr>)))) =
     [CFetch videoFile, CWriteFile ''input-0.mp4'' [0],
      CExec [''-i'', ''input-0.mp4'', ''-c:v'', ''copy'', ''-c:a'', ''copy'',
             ''-movflags'', ''+faststart'', ''-y'', ''output-0.mp4'']] \<and>
   fst (resumed testConfig StubFFmpeg (0, 0) 5
          (compress_start testConfig StubFFmpeg (Some videoFile)
             (Some (conflicting_options\<lparr>mode := Some COPY\<rparr>))
             (running_instance\<lparr>isRunningJob := False\<rparr>))) =
     fst (resumed testConfig StubFFmpeg (0, 0) 5
          (compress_start testConfig StubFFmpeg (Some videoFile)
             (Some (no_options\<lparr>mode := Some COPY\<rparr>))
             (running_instance\<lparr>isRunningJob := False\<rparr>)))"
proof -
  let ?c = "running_instance\<lparr>isRunningJob := False\<rparr>"
  let ?v = "\<lparr>vcodec = None, crf = None, vbitrate = None, preset = None, scale = None\<rparr>"
  let ?args = "[''-i'', inputName_of (0, 0) videoFile, ''-c:v'', ''copy''] @
           (if COPY = COPY then [''-c:a'', ''copy''] else [''-an'']) @
           [''-movflags'', ''+faststart'', ''-y'',
            outputName_of (0, 0) (resolve_output (job_output conflicting_options))]"
  let ?eng' = "running_engine\<lparr>writtenFiles := (writtenFiles running_engine)(''input-0.mp4'' \<mapsto> [0])\<rparr>"
  have v: "conflicting_options\<lparr>mode := Some COPY,
        video := Some (?v\<lparr>crf := Some (Integer 20), vbitrate := Some ''1M''\<rparr>)\<rparr> =
      conflicting_options\<lparr>mode := Some COPY\<rparr>"
    by (simp add: conflicting_options_def)
  have i: "\<not> isRunningJob ?c" "ffmpeg ?c = Some running_engine" "calls ?c = []"
    by (simp_all add: running_instance_def)
  have ff: "fileFetcher testConfig videoFile = Inr [0]" by (simp add: testConfig_def)
  have inp: "inputName_of (0, 0) videoFile = ''input-0.mp4''" by code_simp
  have jn: "outputName_of (0, 0) (resolve_output (job_output conflicting_options)) = ''output-0.mp4''"
    by code_simp
  have mt: "out_mimeType (resolve_output (job_output conflicting_options)) = Some ''video/mp4''"
    by code_simp
  have wf: "ffmpeg_writeFile StubFFmpeg (inputName_of (0, 0) videoFile) [0] running_engine =
      (Inr (), ?eng')"
    by (simp add: StubFFmpeg_def inp)
  have ex: "\<And>a e. fst (ffmpeg_exec StubFFmpeg a e) = Inr ()"
    by (simp add: StubFFmpeg_def)
  have md: "mode (conflicting_options\<lparr>mode := Some COPY\<rparr>) = Some COPY"
    "mode (no_options\<lparr>mode := Some COPY\<rparr>) = mode (conflicting_options\<lparr>mode := Some COPY\<rparr>)"
    "job_output (no_options\<lparr>mode := Some COPY\<rparr>) = job_output (conflicting_options\<lparr>mode := Some COPY\<rparr>)"
    by (simp_all add: conflicting_options_def no_options_def)
  note T = copy_modes_ignore_options [where c = ?c and m = COPY and cfg = testConfig
        and E = StubFFmpeg and now = "(0, 0)" and f = videoFile and opts = conflicting_options
        and v = ?v and q = "Integer 20" and b = "''1M''" and eng = running_engine and data = "[0]"
        and eng' = ?eng' and args = ?args
        and ?o1.0 = "conflicting_options\<lparr>mode := Some COPY\<rparr>"
        and ?o2.0 = "no_options\<lparr>mode := Some COPY\<rparr>"]
  from i have 1: "ffmpeg ?c \<noteq> None" by simp
  from T i ff wf have w: "resumed testConfig StubFFmpeg (0, 0) 3
        (compress_start testConfig StubFFmpeg (Some videoFile)
           (Some (conflicting_options\<lparr>mode := Some COPY,
              video := Some (?v\<lparr>crf := Some (Integer 20), vbitrate := Some ''1M''\<rparr>)\<rparr>)) ?c) =
        (AwaitExec
           \<lparr>job_inputName = inputName_of (0, 0) videoFile,
            job_outputName = outputName_of (0, 0) (resolve_output (job_output conflicting_options)),
            job_args = ?args,
            job_mimeType = out_mimeType (resolve_output (job_output conflicting_options))\<rparr>
           (fst (ffmpeg_exec StubFFmpeg ?args ?eng')),
         ?c\<lparr>activeJobHooks :=
              \<lparr>onLog = or_else (job_onLog conflicting_options) (cfg_onLog testConfig),
               onProgress = or_else (job_onProgress conflicting_options) (cfg_onProgress testConfig)\<rparr>,
           isRunningJob := True,
           ffmpeg := Some (snd (ffmpeg_exec StubFFmpeg ?args ?eng')),
           calls := calls ?c @ [CFetch videoFile, CWriteFile (inputName_of (0, 0) videoFile) [0],
                                CExec ?args]\<rparr>)"
    by blast
  have 2: "fst (resumed testConfig StubFFmpeg (0, 0) 3
          (compress_start testConfig StubFFmpeg (Some videoFile)
             (Some (conflicting_options\<lparr>mode := Some COPY\<rparr>)) ?c)) = AwaitExec running_job (Inr ())"
    using w[unfolded v] by (simp add: inp jn mt ex running_job_def)
  have 3: "calls (snd (resumed testConfig StubFFmpeg (0, 0) 3
          (compress_start testConfig StubFFmpeg (Some videoFile)
             (Some (conflicting_options\<lparr>mode := Some COPY\<rparr>)) ?c))) =
     [CFetch videoFile, CWriteFile ''input-0.mp4'' [0],
      CExec [''-i'', ''input-0.mp4'', ''-c:v'', ''copy'', ''-c:a'', ''copy'',
             ''-movflags'', ''+faststart'', ''-y'', ''output-0.mp4'']]"
    using w[unfolded v] by (simp add: inp jn i)
  from T md i have "fst (resumed testConfig StubFFmpeg (0, 0) 5
          (compress_start testConfig StubFFmpeg (Some videoFile)
             (Some (conflicting_options\<lparr>mode := Some COPY\<rparr>)) ?c)) =
        Settled (propagated testConfig StubFFmpeg (0, 0) videoFile
           (conflicting_options\<lparr>mode := Some COPY\<rparr>) running_engine) \<and>
      fst (resumed testConfig StubFFmpeg (0, 0) 5
          (compress_start testConfig StubFFmpeg (Some videoFile)
             (Some (no_options\<lparr>mode := Some COPY\<rparr>)) ?c)) =
        Settled (propagated testConfig StubFFmpeg (0, 0) videoFile
           (conflicting_options\<lparr>mode := Some COPY\<rparr>) running_engine)"
    by blast
  then have 4: "fst (resumed testConfig StubFFmpeg (0, 0) 5
          (compress_start testConfig StubFFmpeg (Some videoFile)
             (Some (conflicting_options\<lparr>mode := Some COPY\<rparr>)) ?c)) =
     fst (resumed testConfig StubFFmpeg (0, 0) 5
          (compress_start testConfig StubFFmpeg (Some videoFile)
             (Some (no_options\<lparr>mode := Some COPY\<rparr>)) ?c))"
    by simp
  from 1 2 3 4 show ?thesis by blast
qed

end
